theory Spec2Isabelle
  imports Complex_Main "HOL-Library.Word" "HOL-Library.Monad_Syntax"
begin

section \<open>Data model\<close>

text \<open>
  A value of the C++ type \<open>float\<close> is modelled by the real number it denotes.
  Arithmetic on floats is read as exact arithmetic, except where a statement depends on
  rounding: the section on binary32 addition below gives the rounding of \<open>float\<close>,
  and \<open>DrawJar_binary32\<close> is \<open>DrawJar\<close> with its additions rounded.
\<close>

type_synonym float = real

datatype vec2 = vec2 float float
datatype vec3 = vec3 float float float
datatype vec4 = vec4 float float float float

text \<open>
  GLM is an external library.  A \<open>glm::mat4\<close> is represented by the GLM expression
  that built it; the constructors are the GLM calls of SceneManager.cpp and are left
  uninterpreted.  \<open>mat4_mult\<close> is \<open>operator*\<close> on matrices.
\<close>

datatype mat4 =
    glm_scale vec3
  | glm_rotate float vec3
  | glm_translate vec3
  | mat4_mult mat4 mat4

instantiation mat4 :: times
begin

definition times_mat4 :: "mat4 \<Rightarrow> mat4 \<Rightarrow> mat4" where
  "times_mat4 a b = mat4_mult a b"

instance ..

end

text \<open>\<open>glm::radians\<close>: degrees times pi over 180.\<close>

definition glm_radians :: "float \<Rightarrow> float" where
  "glm_radians degrees = degrees * pi / 180"

text \<open>SceneManager.h: \<open>struct OBJECT_MATERIAL\<close> and \<open>struct TEXTURE_INFO\<close>.\<close>

record OBJECT_MATERIAL =
  ambientStrength :: float
  ambientColor :: vec3
  diffuseColor :: vec3
  specularColor :: vec3
  shininess :: float
  tag :: string

record TEXTURE_INFO =
  tag :: string
  ID :: "32 word"

text \<open>
  The collaborators that are not part of the sources (shader backend, mesh library,
  OpenGL, image loader) are observed through the calls made on them, in order.
\<close>

datatype uniform_value =
    IntValue int
  | FloatValue float
  | Vec2Value vec2
  | Vec3Value vec3
  | Vec4Value vec4
  | Mat4Value mat4
  | Sampler2DValue int

text \<open>
  A call on \<open>ShapeMeshes\<close>; \<open>DrawCylinderMesh\<close> carries the arguments that the
  caller wrote out (its trailing parameters have defaults).
\<close>

datatype ShapeMeshes_call =
    DrawBoxMesh
  | DrawConeMesh
  | DrawCylinderMesh "bool list"
  | DrawPlaneMesh
  | DrawPrismMesh
  | DrawPyramid3Mesh
  | DrawPyramid4Mesh
  | DrawSphereMesh
  | DrawHalfSphereMesh
  | DrawTaperedCylinderMesh
  | DrawTorusMesh
  | DrawHalfTorusMesh

datatype gl_format = GL_RGB8 | GL_RGBA8

datatype call =
    ShaderSet string uniform_value
  | MeshDraw ShapeMeshes_call
  | glGenTextures "32 word"
  | glBindTexture "32 word"
  | glTexParameteri string string
  | glTexImage2D gl_format int int
  | glGenerateMipmap
  | stbi_image_free
  | stbi_set_flip_vertically_on_load bool
  | glActiveTexture int

datatype ShaderManager_ptr = NULL | ShaderManager

text \<open>
  The members of \<open>class SceneManager\<close>, and the log of calls made so far.
  \<open>gl_generated\<close> counts the texture names OpenGL has handed out.
\<close>

record SceneManager =
  m_pShaderManager :: ShaderManager_ptr
  m_loadedTextures :: int
  m_textureIDs :: "TEXTURE_INFO list"
  m_objectMaterials :: "OBJECT_MATERIAL list"
  gl_generated :: nat
  calls :: "call list"

text \<open>What \<open>stbi_load\<close> reports for a decoded image.\<close>

record stbi_image =
  width :: int
  height :: int
  colorChannels :: int

text \<open>
  The outside world of texture loading: the image loader (\<open>None\<close> is the null
  pointer of a failed decode) and the texture names OpenGL generates, by call number.
\<close>

record environment =
  stbi_load :: "string \<Rightarrow> stbi_image option"
  gl_texture_name :: "nat \<Rightarrow> 32 word"

section \<open>Texture registry\<close>

text \<open>
  \<open>CreateGLTexture\<close>.  The result is \<open>None\<close> when the write to
  \<open>m_textureIDs[m_loadedTextures]\<close> falls outside the 16 slots of the array
  (undefined behaviour in C++); otherwise the returned flag and the new state.  The
  messages written to \<open>std::cout\<close> are left out.
\<close>

definition CreateGLTexture ::
  "environment \<Rightarrow> string \<Rightarrow> string \<Rightarrow> SceneManager \<Rightarrow> (bool \<times> SceneManager) option" where
  "CreateGLTexture env filename tag' s =
     (let s = s\<lparr>calls := calls s @ [stbi_set_flip_vertically_on_load True]\<rparr>
      in case stbi_load env filename of
        Some image' \<Rightarrow>
          (let textureID = gl_texture_name env (gl_generated s);
               s = s\<lparr>gl_generated := gl_generated s + 1,
                      calls := calls s @
                        [glGenTextures textureID, glBindTexture textureID,
                         glTexParameteri ''GL_TEXTURE_WRAP_S'' ''GL_REPEAT'',
                         glTexParameteri ''GL_TEXTURE_WRAP_T'' ''GL_REPEAT'',
                         glTexParameteri ''GL_TEXTURE_MIN_FILTER'' ''GL_LINEAR'',
                         glTexParameteri ''GL_TEXTURE_MAG_FILTER'' ''GL_LINEAR'']\<rparr>
           in if colorChannels image' = 3 \<or> colorChannels image' = 4 then
                (let fmt = (if colorChannels image' = 3 then GL_RGB8 else GL_RGBA8);
                     s = s\<lparr>calls := calls s @
                            [glTexImage2D fmt (width image') (height image'),
                             glGenerateMipmap, stbi_image_free, glBindTexture 0]\<rparr>
                 in if 0 \<le> m_loadedTextures s \<and> m_loadedTextures s < 16
                       \<and> nat (m_loadedTextures s) < length (m_textureIDs s) then
                      Some (True,
                        s\<lparr>m_textureIDs := (m_textureIDs s)
                              [nat (m_loadedTextures s) := \<lparr>tag = tag', ID = textureID\<rparr>],
                          m_loadedTextures := m_loadedTextures s + 1\<rparr>)
                    else None)
              else Some (False, s))
      | None \<Rightarrow> Some (False, s))"

text \<open>
  \<open>FindTextureSlot\<close>: the \<open>while\<close> loop with its three local variables.
  Reading a slot outside the array is \<open>None\<close>.
\<close>

function FindTextureSlot_while ::
  "SceneManager \<Rightarrow> string \<Rightarrow> int \<Rightarrow> int \<Rightarrow> bool \<Rightarrow> int option" where
  "FindTextureSlot_while s tag' textureSlot index bFound =
     (if index < m_loadedTextures s \<and> bFound = False then
        (if index < 0 \<or> 16 \<le> index \<or> length (m_textureIDs s) \<le> nat index then None
         else if TEXTURE_INFO.tag (m_textureIDs s ! nat index) = tag'
              then FindTextureSlot_while s tag' index index True
              else FindTextureSlot_while s tag' textureSlot (index + 1) bFound)
      else Some textureSlot)"
  by pat_completeness auto
termination
  by (relation "measure (\<lambda>(s, t, slot, index, bFound).
        if bFound then 0 else 1 + nat (m_loadedTextures s - index))") auto

definition FindTextureSlot :: "string \<Rightarrow> SceneManager \<Rightarrow> int option" where
  "FindTextureSlot tag' s = FindTextureSlot_while s tag' (-1) 0 False"

text \<open>
  \<open>BindGLTextures\<close>: the \<open>for\<close> loop over the loaded textures, binding slot
  \<open>i\<close> to texture unit \<open>GL_TEXTURE0 + i\<close>.
\<close>

function BindGLTextures_for :: "SceneManager \<Rightarrow> int \<Rightarrow> SceneManager option" where
  "BindGLTextures_for s i =
     (if i < m_loadedTextures s then
        (if i < 0 \<or> 16 \<le> i \<or> length (m_textureIDs s) \<le> nat i then None
         else BindGLTextures_for
                (s\<lparr>calls := calls s @
                     [glActiveTexture i, glBindTexture (ID (m_textureIDs s ! nat i))]\<rparr>)
                (i + 1))
      else Some s)"
  by pat_completeness auto
termination
  by (relation "measure (\<lambda>(s, i). nat (m_loadedTextures s - i))") auto

definition BindGLTextures :: "SceneManager \<Rightarrow> SceneManager option" where
  "BindGLTextures s = BindGLTextures_for s 0"

text \<open>\<open>LoadSceneTextures\<close>: ten loads, each result overwriting \<open>bReturn\<close>, then the binding.\<close>

definition LoadSceneTextures :: "environment \<Rightarrow> SceneManager \<Rightarrow> SceneManager option" where
  "LoadSceneTextures env s = do {
     (bReturn, s) \<leftarrow> CreateGLTexture env ''../../Utilities/textures/tile.jpg'' ''backdrop'' s;
     (bReturn, s) \<leftarrow> CreateGLTexture env ''../../Utilities/textures/counter.jpg'' ''counter'' s;
     (bReturn, s) \<leftarrow> CreateGLTexture env ''../../Utilities/textures/knife_handle.jpg'' ''wood'' s;
     (bReturn, s) \<leftarrow> CreateGLTexture env ''../../Utilities/textures/metal.jpg'' ''metal'' s;
     (bReturn, s) \<leftarrow> CreateGLTexture env ''../../Utilities/textures/marble.jpg'' ''marble'' s;
     (bReturn, s) \<leftarrow> CreateGLTexture env ''../../Utilities/textures/drywall.jpg'' ''plastic'' s;
     (bReturn, s) \<leftarrow> CreateGLTexture env ''../../Utilities/textures/cucumber_outer.jpeg'' ''cucumber_outer'' s;
     (bReturn, s) \<leftarrow> CreateGLTexture env ''../../Utilities/textures/cucumber_inner.jpg'' ''cucumber_inner'' s;
     (bReturn, s) \<leftarrow> CreateGLTexture env ''../../Utilities/textures/glass10.png'' ''glass10'' s;
     (bReturn, s) \<leftarrow> CreateGLTexture env ''../../Utilities/textures/glass13.png'' ''glass13'' s;
     BindGLTextures s
   }"

text \<open>The (file name, tag) pairs of \<open>LoadSceneTextures\<close>, in call order.\<close>

definition scene_textures :: "(string \<times> string) list" where
  "scene_textures =
     [(''../../Utilities/textures/tile.jpg'', ''backdrop''),
      (''../../Utilities/textures/counter.jpg'', ''counter''),
      (''../../Utilities/textures/knife_handle.jpg'', ''wood''),
      (''../../Utilities/textures/metal.jpg'', ''metal''),
      (''../../Utilities/textures/marble.jpg'', ''marble''),
      (''../../Utilities/textures/drywall.jpg'', ''plastic''),
      (''../../Utilities/textures/cucumber_outer.jpeg'', ''cucumber_outer''),
      (''../../Utilities/textures/cucumber_inner.jpg'', ''cucumber_inner''),
      (''../../Utilities/textures/glass10.png'', ''glass10''),
      (''../../Utilities/textures/glass13.png'', ''glass13'')]"

text \<open>
  A client that calls \<open>CreateGLTexture\<close> once for each (file name, tag) pair, in
  order, ignoring the returned flags.
\<close>

fun CreateGLTextures ::
  "environment \<Rightarrow> (string \<times> string) list \<Rightarrow> SceneManager \<Rightarrow> SceneManager option" where
  "CreateGLTextures env [] s = Some s"
| "CreateGLTextures env ((filename, tag') # rest) s =
     (case CreateGLTexture env filename tag' s of
        None \<Rightarrow> None
      | Some (bReturn, s') \<Rightarrow> CreateGLTextures env rest s')"

text \<open>The tags of the slots in use, in slot order.\<close>

definition registered_tags :: "SceneManager \<Rightarrow> string list" where
  "registered_tags s = map TEXTURE_INFO.tag (take (nat (m_loadedTextures s)) (m_textureIDs s))"

text \<open>Whether the image loader and the channel test accept a file.\<close>

definition loadable :: "environment \<Rightarrow> string \<Rightarrow> bool" where
  "loadable env filename =
     (case stbi_load env filename of
        None \<Rightarrow> False
      | Some image' \<Rightarrow> colorChannels image' = 3 \<or> colorChannels image' = 4)"

text \<open>
  The array invariant of the registry: sixteen slots, and a count of slots in use
  between 0 and 16.
\<close>

definition registry_ok :: "SceneManager \<Rightarrow> bool" where
  "registry_ok s \<longleftrightarrow>
     0 \<le> m_loadedTextures s \<and> m_loadedTextures s \<le> 16 \<and> length (m_textureIDs s) = 16"

text \<open>The tags a sequence of loads registers: those of the files that load.\<close>

definition loaded_tags :: "environment \<Rightarrow> (string \<times> string) list \<Rightarrow> string list" where
  "loaded_tags env loads = map snd (filter (\<lambda>(filename, t). loadable env filename) loads)"

section \<open>Shader backend\<close>

text \<open>
  The setters of \<open>ShaderManager\<close> (an external class): each one is recorded as a call
  with the uniform's name and the typed value.  \<open>setIntValue\<close> receives the C++
  \<open>bool\<close> arguments as 0 and 1.
\<close>

definition setIntValue :: "string \<Rightarrow> int \<Rightarrow> SceneManager \<Rightarrow> SceneManager" where
  "setIntValue name v s = s\<lparr>calls := calls s @ [ShaderSet name (IntValue v)]\<rparr>"

definition setFloatValue :: "string \<Rightarrow> float \<Rightarrow> SceneManager \<Rightarrow> SceneManager" where
  "setFloatValue name v s = s\<lparr>calls := calls s @ [ShaderSet name (FloatValue v)]\<rparr>"

definition setVec2Value :: "string \<Rightarrow> vec2 \<Rightarrow> SceneManager \<Rightarrow> SceneManager" where
  "setVec2Value name v s = s\<lparr>calls := calls s @ [ShaderSet name (Vec2Value v)]\<rparr>"

definition setVec3Value :: "string \<Rightarrow> vec3 \<Rightarrow> SceneManager \<Rightarrow> SceneManager" where
  "setVec3Value name v s = s\<lparr>calls := calls s @ [ShaderSet name (Vec3Value v)]\<rparr>"

definition setVec4Value :: "string \<Rightarrow> vec4 \<Rightarrow> SceneManager \<Rightarrow> SceneManager" where
  "setVec4Value name v s = s\<lparr>calls := calls s @ [ShaderSet name (Vec4Value v)]\<rparr>"

definition setMat4Value :: "string \<Rightarrow> mat4 \<Rightarrow> SceneManager \<Rightarrow> SceneManager" where
  "setMat4Value name v s = s\<lparr>calls := calls s @ [ShaderSet name (Mat4Value v)]\<rparr>"

definition setSampler2DValue :: "string \<Rightarrow> int \<Rightarrow> SceneManager \<Rightarrow> SceneManager" where
  "setSampler2DValue name v s = s\<lparr>calls := calls s @ [ShaderSet name (Sampler2DValue v)]\<rparr>"

text \<open>The global names of SceneManager.cpp.\<close>

definition g_ModelName :: string where "g_ModelName = ''model''"
definition g_ColorValueName :: string where "g_ColorValueName = ''objectColor''"
definition g_TextureValueName :: string where "g_TextureValueName = ''objectTexture''"
definition g_UseTextureName :: string where "g_UseTextureName = ''bUseTexture''"

section \<open>Material lookup\<close>

text \<open>
  \<open>FindMaterial\<close>: the out-parameter \<open>material\<close> is passed in and returned.  The
  loop copies five fields on a match (not the tag); the function returns \<open>true\<close>
  after the loop whatever \<open>bFound\<close> is.
\<close>

function FindMaterial_while ::
  "SceneManager \<Rightarrow> string \<Rightarrow> OBJECT_MATERIAL \<Rightarrow> nat \<Rightarrow> bool \<Rightarrow> OBJECT_MATERIAL" where
  "FindMaterial_while s tag' material index bFound =
     (if index < length (m_objectMaterials s) \<and> bFound = False then
        (if OBJECT_MATERIAL.tag (m_objectMaterials s ! index) = tag'
         then FindMaterial_while s tag'
                (material\<lparr>ambientColor := ambientColor (m_objectMaterials s ! index),
                          ambientStrength := ambientStrength (m_objectMaterials s ! index),
                          diffuseColor := diffuseColor (m_objectMaterials s ! index),
                          specularColor := specularColor (m_objectMaterials s ! index),
                          shininess := shininess (m_objectMaterials s ! index)\<rparr>)
                index True
         else FindMaterial_while s tag' material (index + 1) bFound)
      else material)"
  by pat_completeness auto
termination
  by (relation "measure (\<lambda>(s, t, material, index, bFound).
        if bFound then 0 else 1 + (length (m_objectMaterials s) - index))") auto

definition FindMaterial ::
  "string \<Rightarrow> OBJECT_MATERIAL \<Rightarrow> SceneManager \<Rightarrow> bool \<times> OBJECT_MATERIAL" where
  "FindMaterial tag' material s =
     (if length (m_objectMaterials s) = 0 then (False, material)
      else (True, FindMaterial_while s tag' material 0 False))"

section \<open>Transformations and shader attributes\<close>

text \<open>\<open>SetTransformations\<close>.\<close>

definition SetTransformations ::
  "vec3 \<Rightarrow> float \<Rightarrow> float \<Rightarrow> float \<Rightarrow> vec3 \<Rightarrow> SceneManager \<Rightarrow> SceneManager" where
  "SetTransformations scaleXYZ XrotationDegrees YrotationDegrees ZrotationDegrees positionXYZ s =
     (let scale = glm_scale scaleXYZ;
          rotationX = glm_rotate (glm_radians XrotationDegrees) (vec3 1 0 0);
          rotationY = glm_rotate (glm_radians YrotationDegrees) (vec3 0 1 0);
          rotationZ = glm_rotate (glm_radians ZrotationDegrees) (vec3 0 0 1);
          translation = glm_translate positionXYZ;
          modelView = translation * rotationX * rotationY * rotationZ * scale
      in if m_pShaderManager s \<noteq> NULL then setMat4Value g_ModelName modelView s else s)"

text \<open>\<open>SetShaderColor\<close>.\<close>

definition SetShaderColor ::
  "float \<Rightarrow> float \<Rightarrow> float \<Rightarrow> float \<Rightarrow> SceneManager \<Rightarrow> SceneManager" where
  "SetShaderColor redColorValue greenColorValue blueColorValue alphaValue s =
     (let currentColor = vec4 redColorValue greenColorValue blueColorValue alphaValue
      in if m_pShaderManager s \<noteq> NULL
         then setVec4Value g_ColorValueName currentColor (setIntValue g_UseTextureName 0 s)
         else s)"

text \<open>
  \<open>SetShaderTexture\<close>: \<open>None\<close> when the slot lookup reads outside the array.
\<close>

definition SetShaderTexture :: "string \<Rightarrow> SceneManager \<Rightarrow> SceneManager option" where
  "SetShaderTexture textureTag s =
     (if m_pShaderManager s \<noteq> NULL then do {
        let s = setIntValue g_UseTextureName 1 s;
        textureID \<leftarrow> FindTextureSlot textureTag s;
        Some (setSampler2DValue g_TextureValueName textureID s)
      } else Some s)"

text \<open>\<open>SetTextureUVScale\<close>.\<close>

definition SetTextureUVScale :: "float \<Rightarrow> float \<Rightarrow> SceneManager \<Rightarrow> SceneManager" where
  "SetTextureUVScale u v s =
     (if m_pShaderManager s \<noteq> NULL then setVec2Value ''UVscale'' (vec2 u v) s else s)"

text \<open>
  \<open>SetShaderMaterial\<close>.  The local \<open>OBJECT_MATERIAL material\<close> is declared without
  an initialiser; its indeterminate contents are the parameter \<open>uninitialized\<close>.  The
  setters are called through \<open>m_pShaderManager\<close> without a null test: \<open>None\<close> is
  the null dereference.
\<close>

definition SetShaderMaterial ::
  "OBJECT_MATERIAL \<Rightarrow> string \<Rightarrow> SceneManager \<Rightarrow> SceneManager option" where
  "SetShaderMaterial uninitialized materialTag s =
     (if length (m_objectMaterials s) > 0 then
        (let material = uninitialized;
             (bReturn, material) = FindMaterial materialTag material s
         in if bReturn = True then
              (if m_pShaderManager s = NULL then None
               else Some
                 (setFloatValue ''material.shininess'' (shininess material)
                 (setVec3Value ''material.specularColor'' (specularColor material)
                 (setVec3Value ''material.diffuseColor'' (diffuseColor material)
                 (setFloatValue ''material.ambientStrength'' (ambientStrength material)
                 (setVec3Value ''material.ambientColor'' (ambientColor material) s))))))
            else Some s)
      else Some s)"

text \<open>\<open>SetShaderAttributes\<close>.\<close>

fun SetShaderAttributes ::
  "OBJECT_MATERIAL \<Rightarrow> vec4 \<Rightarrow> string \<Rightarrow> vec2 \<Rightarrow> string \<Rightarrow> SceneManager
     \<Rightarrow> SceneManager option" where
  "SetShaderAttributes uninitialized (vec4 x y z w) texture (vec2 u v) material s = do {
     let s = SetShaderColor x y z w s;
     s \<leftarrow> (if texture \<noteq> ''none'' then SetShaderTexture texture s else Some s);
     let s = SetTextureUVScale u v s;
     s \<leftarrow> (if material \<noteq> ''none'' then SetShaderMaterial uninitialized material s else Some s);
     Some s
   }"

section \<open>Mesh drawing\<close>

text \<open>ShapeMeshWrappers.h: the functions a \<open>MeshDrawFunction\<close> can point to.\<close>

datatype MeshDrawFunction =
    DrawBoxMeshWrapper
  | DrawConeMeshWrapper
  | DrawCylinderMeshWrapper
  | DrawHollowCylinderMeshWrapper
  | DrawNoSideCylinderMeshWrapper
  | DrawPlaneMeshWrapper
  | DrawPrismMeshWrapper
  | DrawPyramid3MeshWrapper
  | DrawPyramid4MeshWrapper
  | DrawSphereMeshWrapper
  | DrawHalfSphereMeshWrapper
  | DrawTaperedCylinderMeshWrapper
  | DrawTorusMeshWrapper
  | DrawHalfTorusMeshWrapper
  | DrawNone

definition mesh_call :: "ShapeMeshes_call \<Rightarrow> SceneManager \<Rightarrow> SceneManager" where
  "mesh_call c s = s\<lparr>calls := calls s @ [MeshDraw c]\<rparr>"

fun call_wrapper :: "MeshDrawFunction \<Rightarrow> SceneManager \<Rightarrow> SceneManager" where
  "call_wrapper DrawBoxMeshWrapper s = mesh_call DrawBoxMesh s"
| "call_wrapper DrawConeMeshWrapper s = mesh_call DrawConeMesh s"
| "call_wrapper DrawCylinderMeshWrapper s = mesh_call (DrawCylinderMesh []) s"
| "call_wrapper DrawHollowCylinderMeshWrapper s = mesh_call (DrawCylinderMesh [False, False]) s"
| "call_wrapper DrawNoSideCylinderMeshWrapper s =
     mesh_call (DrawCylinderMesh [True, True, False]) s"
| "call_wrapper DrawPlaneMeshWrapper s = mesh_call DrawPlaneMesh s"
| "call_wrapper DrawPrismMeshWrapper s = mesh_call DrawPrismMesh s"
| "call_wrapper DrawPyramid3MeshWrapper s = mesh_call DrawPyramid3Mesh s"
| "call_wrapper DrawPyramid4MeshWrapper s = mesh_call DrawPyramid4Mesh s"
| "call_wrapper DrawSphereMeshWrapper s = mesh_call DrawSphereMesh s"
| "call_wrapper DrawHalfSphereMeshWrapper s = mesh_call DrawHalfSphereMesh s"
| "call_wrapper DrawTaperedCylinderMeshWrapper s = mesh_call DrawTaperedCylinderMesh s"
| "call_wrapper DrawTorusMeshWrapper s = mesh_call DrawTorusMesh s"
| "call_wrapper DrawHalfTorusMeshWrapper s = mesh_call DrawHalfTorusMesh s"
| "call_wrapper DrawNone s = s"

text \<open>\<open>DrawMeshTransformation\<close>; the mesh object is always \<open>m_basicMeshes\<close>.\<close>

fun DrawMeshTransformation ::
  "vec3 \<Rightarrow> vec3 \<Rightarrow> vec3 \<Rightarrow> MeshDrawFunction \<Rightarrow> SceneManager \<Rightarrow> SceneManager" where
  "DrawMeshTransformation scaleXYZ (vec3 rx ry rz) positionXYZ drawMeshFunction s =
     call_wrapper drawMeshFunction (SetTransformations scaleXYZ rx ry rz positionXYZ s)"

section \<open>The jar\<close>

text \<open>\<open>DrawJar\<close>: one attribute set-up, then ten shapes from bottom to top.\<close>

definition DrawJar ::
  "OBJECT_MATERIAL \<Rightarrow> float \<Rightarrow> float \<Rightarrow> float \<Rightarrow> SceneManager \<Rightarrow> SceneManager option" where
  "DrawJar uninitialized x_pos y_pos z_pos s =
    (let jarX_pos = x_pos;
         jarY_pos = y_pos;
         jarZ_pos = z_pos;
         baseShaderColorRGBA = vec4 0.7 0.7 0.9 0.8;
         baseTexture = ''glass13'';
         lidTexture = ''glass10'';
         baseUVscale = vec2 1.0 0.35;
         baseMaterial = ''glass''
     in do {
     s \<leftarrow> SetShaderAttributes uninitialized baseShaderColorRGBA baseTexture baseUVscale
            baseMaterial s;
     let s = DrawMeshTransformation
               (vec3 2.0 0.3 2.0)
               (vec3 0.0 0.0 0.0)
               (vec3 (jarX_pos + 0.0) (jarY_pos + 0.15) (jarZ_pos + 0.0))
               DrawSphereMeshWrapper s;
     let s = DrawMeshTransformation
               (vec3 2.0 4.05 2.0)
               (vec3 0.0 0.0 0.0)
               (vec3 (jarX_pos + 0.0) (jarY_pos + 0.15) (jarZ_pos + 0.0))
               DrawCylinderMeshWrapper s;
     let s = SetTextureUVScale 1.0 0.25 s;
     let s = DrawMeshTransformation
               (vec3 2.02 0.7 2.02)
               (vec3 0.0 (-10.0) 0.0)
               (vec3 (jarX_pos + 0.0) (jarY_pos + 4.2) (jarZ_pos + 0.0))
               DrawSphereMeshWrapper s;
     let s = SetTextureUVScale 0.8 0.1 s;
     let s = DrawMeshTransformation
               (vec3 1.6 0.80 1.6)
               (vec3 0.0 8.0 0.0)
               (vec3 (jarX_pos + 0.0) (jarY_pos + 4.4) (jarZ_pos + 0.0))
               DrawCylinderMeshWrapper s;
     let s = SetTextureUVScale 1.5 0.3 s;
     let s = DrawMeshTransformation
               (vec3 1.48 1.48 0.65)
               (vec3 90.0 0.0 0.0)
               (vec3 (jarX_pos + 0.0) (jarY_pos + 5.10) (jarZ_pos + 0.0))
               DrawTorusMeshWrapper s;
     s \<leftarrow> SetShaderTexture lidTexture s;
     let s = SetTextureUVScale 2.0 1.0 s;
     let s = DrawMeshTransformation
               (vec3 1.5 1.5 0.5)
               (vec3 90.0 0.0 0.0)
               (vec3 (jarX_pos + 0.0) (jarY_pos + 5.25) (jarZ_pos + 0.0))
               DrawTorusMeshWrapper s;
     let s = DrawMeshTransformation
               (vec3 1.6 0.16 1.6)
               (vec3 0.0 0.0 0.0)
               (vec3 (jarX_pos + 0.0) (jarY_pos + 5.25) (jarZ_pos + 0.0))
               DrawSphereMeshWrapper s;
     let s = SetTextureUVScale 2.0 1.0 s;
     let s = DrawMeshTransformation
               (vec3 0.9 0.5 0.9)
               (vec3 0.0 0.0 0.0)
               (vec3 (jarX_pos + 0.0) (jarY_pos + 5.2) (jarZ_pos + 0.0))
               DrawCylinderMeshWrapper s;
     let s = SetTextureUVScale 1.5 1.0 s;
     let s = DrawMeshTransformation
               (vec3 1.1 1.1 0.5)
               (vec3 90.0 0.0 0.0)
               (vec3 (jarX_pos + 0.0) (jarY_pos + 5.7) (jarZ_pos + 0.0))
               DrawTorusMeshWrapper s;
     let s = DrawMeshTransformation
               (vec3 1.1 0.2 1.1)
               (vec3 0.0 0.0 0.0)
               (vec3 (jarX_pos + 0.0) (jarY_pos + 5.65) (jarZ_pos + 0.0))
               DrawSphereMeshWrapper s;
     Some s
   })"

section \<open>Binary32 addition\<close>

text \<open>
  The number of binary digits of a positive integer, and the exponent \<open>e\<close> of a
  non-zero real \<open>x\<close>: the integer with \<open>2^e \<le> |x| < 2^(e+1)\<close>.
\<close>

function bit_length :: "int \<Rightarrow> int" where
  "bit_length n = (if n \<le> 0 then 0 else 1 + bit_length (n div 2))"
  by pat_completeness auto
termination
  by (relation "measure nat") auto

definition exponent :: "real \<Rightarrow> int" where
  "exponent x =
     (if 1 \<le> \<bar>x\<bar> then bit_length \<lfloor>\<bar>x\<bar>\<rfloor> - 1
      else (let j = bit_length \<lfloor>1 / \<bar>x\<bar>\<rfloor> - 1
            in if \<bar>x\<bar> * 2 ^ nat j = 1 then - j else - j - 1))"

text \<open>Rounding to the nearest integer, a tie going to the even one.\<close>

definition round_half_even :: "real \<Rightarrow> int" where
  "round_half_even m =
     (let f = \<lfloor>m\<rfloor>
      in if m - real_of_int f < 1 / 2 then f
         else if 1 / 2 < m - real_of_int f then f + 1
         else if even f then f else f + 1)"

text \<open>
  \<open>binary32 x\<close> is \<open>x\<close> rounded to the nearest number with a significand of 24
  binary digits, ties to even: the rounding of the C++ type \<open>float\<close> (IEEE 754
  binary32, round to nearest even).  The exponent is not bounded here; for the sum of
  two finite floats the result is that of IEEE 754 unless the sum overflows (a sum in
  the subnormal range is exact in both).  A float literal of the source such as
  \<open>0.15f\<close> denotes \<open>binary32 0.15\<close>, and \<open>+\<close> on two floats is \<open>fadd\<close>.
\<close>

definition binary32 :: "real \<Rightarrow> real" where
  "binary32 x =
     (if x = 0 then 0
      else (let e = exponent x;
                q = (if 23 \<le> e then 2 ^ nat (e - 23) else 1 / 2 ^ nat (23 - e))
            in real_of_int (round_half_even (x / q)) * q))"

definition fadd :: "float \<Rightarrow> float \<Rightarrow> float" where
  "fadd a b = binary32 (a + b)"


text \<open>
  \<open>DrawJar\<close> with the float additions written out.  The only arithmetic of
  \<open>DrawJar\<close> is in the thirty position components \<open>jarX_pos + 0.0f\<close>,
  \<open>jarY_pos + c\<close>, \<open>jarZ_pos + 0.0f\<close>: here each is the binary32 sum of the
  origin's coordinate and the float that the literal denotes.  Everything else is as
  in \<open>DrawJar\<close>: the other literals are constants handed on as written.
\<close>

definition DrawJar_binary32 ::
  "OBJECT_MATERIAL \<Rightarrow> float \<Rightarrow> float \<Rightarrow> float \<Rightarrow> SceneManager \<Rightarrow> SceneManager option" where
  "DrawJar_binary32 uninitialized x_pos y_pos z_pos s =
    (let jarX_pos = x_pos;
         jarY_pos = y_pos;
         jarZ_pos = z_pos;
         baseShaderColorRGBA = vec4 0.7 0.7 0.9 0.8;
         baseTexture = ''glass13'';
         lidTexture = ''glass10'';
         baseUVscale = vec2 1.0 0.35;
         baseMaterial = ''glass''
     in do {
     s \<leftarrow> SetShaderAttributes uninitialized baseShaderColorRGBA baseTexture baseUVscale
            baseMaterial s;
     let s = DrawMeshTransformation
               (vec3 2.0 0.3 2.0)
               (vec3 0.0 0.0 0.0)
               (vec3 (fadd jarX_pos (binary32 0.0)) (fadd jarY_pos (binary32 0.15))
                  (fadd jarZ_pos (binary32 0.0)))
               DrawSphereMeshWrapper s;
     let s = DrawMeshTransformation
               (vec3 2.0 4.05 2.0)
               (vec3 0.0 0.0 0.0)
               (vec3 (fadd jarX_pos (binary32 0.0)) (fadd jarY_pos (binary32 0.15))
                  (fadd jarZ_pos (binary32 0.0)))
               DrawCylinderMeshWrapper s;
     let s = SetTextureUVScale 1.0 0.25 s;
     let s = DrawMeshTransformation
               (vec3 2.02 0.7 2.02)
               (vec3 0.0 (-10.0) 0.0)
               (vec3 (fadd jarX_pos (binary32 0.0)) (fadd jarY_pos (binary32 4.2))
                  (fadd jarZ_pos (binary32 0.0)))
               DrawSphereMeshWrapper s;
     let s = SetTextureUVScale 0.8 0.1 s;
     let s = DrawMeshTransformation
               (vec3 1.6 0.80 1.6)
               (vec3 0.0 8.0 0.0)
               (vec3 (fadd jarX_pos (binary32 0.0)) (fadd jarY_pos (binary32 4.4))
                  (fadd jarZ_pos (binary32 0.0)))
               DrawCylinderMeshWrapper s;
     let s = SetTextureUVScale 1.5 0.3 s;
     let s = DrawMeshTransformation
               (vec3 1.48 1.48 0.65)
               (vec3 90.0 0.0 0.0)
               (vec3 (fadd jarX_pos (binary32 0.0)) (fadd jarY_pos (binary32 5.10))
                  (fadd jarZ_pos (binary32 0.0)))
               DrawTorusMeshWrapper s;
     s \<leftarrow> SetShaderTexture lidTexture s;
     let s = SetTextureUVScale 2.0 1.0 s;
     let s = DrawMeshTransformation
               (vec3 1.5 1.5 0.5)
               (vec3 90.0 0.0 0.0)
               (vec3 (fadd jarX_pos (binary32 0.0)) (fadd jarY_pos (binary32 5.25))
                  (fadd jarZ_pos (binary32 0.0)))
               DrawTorusMeshWrapper s;
     let s = DrawMeshTransformation
               (vec3 1.6 0.16 1.6)
               (vec3 0.0 0.0 0.0)
               (vec3 (fadd jarX_pos (binary32 0.0)) (fadd jarY_pos (binary32 5.25))
                  (fadd jarZ_pos (binary32 0.0)))
               DrawSphereMeshWrapper s;
     let s = SetTextureUVScale 2.0 1.0 s;
     let s = DrawMeshTransformation
               (vec3 0.9 0.5 0.9)
               (vec3 0.0 0.0 0.0)
               (vec3 (fadd jarX_pos (binary32 0.0)) (fadd jarY_pos (binary32 5.2))
                  (fadd jarZ_pos (binary32 0.0)))
               DrawCylinderMeshWrapper s;
     let s = SetTextureUVScale 1.5 1.0 s;
     let s = DrawMeshTransformation
               (vec3 1.1 1.1 0.5)
               (vec3 90.0 0.0 0.0)
               (vec3 (fadd jarX_pos (binary32 0.0)) (fadd jarY_pos (binary32 5.7))
                  (fadd jarZ_pos (binary32 0.0)))
               DrawTorusMeshWrapper s;
     let s = DrawMeshTransformation
               (vec3 1.1 0.2 1.1)
               (vec3 0.0 0.0 0.0)
               (vec3 (fadd jarX_pos (binary32 0.0)) (fadd jarY_pos (binary32 5.65))
                  (fadd jarZ_pos (binary32 0.0)))
               DrawSphereMeshWrapper s;
     Some s
   })"

section \<open>Materials of the scene\<close>

text \<open>\<open>DefineObjectMaterials\<close>: six \<open>push_back\<close> calls.\<close>

definition DefineObjectMaterials :: "SceneManager \<Rightarrow> SceneManager" where
  "DefineObjectMaterials s =
    (let glassMaterial = \<lparr>ambientStrength = 0.15, ambientColor = vec3 0.4 0.4 0.4,
           diffuseColor = vec3 0.32 0.32 0.3, specularColor = vec3 0.6 0.6 0.6,
           shininess = 75.0, tag = ''glass''\<rparr>;
         woodMaterial = \<lparr>ambientStrength = 0.2, ambientColor = vec3 0.25 0.22 0.2,
           diffuseColor = vec3 0.25 0.2 0.15, specularColor = vec3 0.2 0.2 0.2,
           shininess = 5.0, tag = ''wood''\<rparr>;
         plasticMaterial = \<lparr>ambientStrength = 0.15, ambientColor = vec3 0.2 0.2 0.23,
           diffuseColor = vec3 0.25 0.255 0.28, specularColor = vec3 0.32 0.32 0.3,
           shininess = 7.0, tag = ''plastic''\<rparr>;
         stoneMaterial = \<lparr>ambientStrength = 0.25, ambientColor = vec3 0.39 0.37 0.35,
           diffuseColor = vec3 0.4 0.37 0.35, specularColor = vec3 0.27 0.3 0.33,
           shininess = 2.0, tag = ''stone''\<rparr>;
         metalMaterial = \<lparr>ambientStrength = 0.4, ambientColor = vec3 0.23 0.23 0.21,
           diffuseColor = vec3 0.3 0.3 0.25, specularColor = vec3 0.45 0.45 0.45,
           shininess = 25.0, tag = ''metal''\<rparr>;
         organicMaterial = \<lparr>ambientStrength = 0.15, ambientColor = vec3 0.25 0.28 0.25,
           diffuseColor = vec3 0.3 0.34 0.3, specularColor = vec3 0.35 0.35 0.3,
           shininess = 12.0, tag = ''organic''\<rparr>
     in s\<lparr>m_objectMaterials := m_objectMaterials s @
            [glassMaterial, woodMaterial, plasticMaterial, stoneMaterial, metalMaterial,
             organicMaterial]\<rparr>)"

section \<open>What the collaborators observe\<close>

text \<open>Appending calls to the log.\<close>

definition emit :: "call list \<Rightarrow> SceneManager \<Rightarrow> SceneManager" where
  "emit cs s = s\<lparr>calls := calls s @ cs\<rparr>"

text \<open>The calls made between a state and a later one.\<close>

definition new_calls :: "SceneManager \<Rightarrow> SceneManager \<Rightarrow> call list" where
  "new_calls s s' = drop (length (calls s)) (calls s')"

text \<open>
  Shader uniforms are global mutable state of the shader backend: a uniform keeps
  the last value set.  \<open>uniforms_after u cs\<close> is the uniform store after the calls
  \<open>cs\<close>, started from the store \<open>u\<close>.
\<close>

type_synonym uniforms = "string \<rightharpoonup> uniform_value"

fun uniforms_after :: "uniforms \<Rightarrow> call list \<Rightarrow> uniforms" where
  "uniforms_after u [] = u"
| "uniforms_after u (ShaderSet name v # cs) = uniforms_after (u(name \<mapsto> v)) cs"
| "uniforms_after u (c # cs) = uniforms_after u cs"

text \<open>
  Each mesh draw reads the uniform store implicitly: \<open>draws u cs\<close> lists the mesh
  draws among \<open>cs\<close>, each with the store it is issued against.
\<close>

fun draws :: "uniforms \<Rightarrow> call list \<Rightarrow> (ShapeMeshes_call \<times> uniforms) list" where
  "draws u [] = []"
| "draws u (ShaderSet name v # cs) = draws (u(name \<mapsto> v)) cs"
| "draws u (MeshDraw m # cs) = (m, u) # draws u cs"
| "draws u (c # cs) = draws u cs"



text \<open>The five uniform writes that upload a material, in the order of the source.\<close>

definition material_calls :: "OBJECT_MATERIAL \<Rightarrow> call list" where
  "material_calls material =
     [ShaderSet ''material.ambientColor'' (Vec3Value (ambientColor material)),
      ShaderSet ''material.ambientStrength'' (FloatValue (ambientStrength material)),
      ShaderSet ''material.diffuseColor'' (Vec3Value (diffuseColor material)),
      ShaderSet ''material.specularColor'' (Vec3Value (specularColor material)),
      ShaderSet ''material.shininess'' (FloatValue (shininess material))]"

section \<open>The transform of the specification\<close>

text \<open>
  The specification's words: \<open>Translate\<close>, \<open>RotateX\<close>, \<open>RotateY\<close>, \<open>RotateZ\<close>
  and \<open>Scale\<close>, with rotation angles given in degrees and converted to radians, and
  \<open>compose\<close> as their product in that order.
\<close>

definition Translate :: "vec3 \<Rightarrow> mat4" where
  "Translate position = glm_translate position"

definition RotateX :: "float \<Rightarrow> mat4" where
  "RotateX degrees = glm_rotate (degrees * pi / 180) (vec3 1 0 0)"

definition RotateY :: "float \<Rightarrow> mat4" where
  "RotateY degrees = glm_rotate (degrees * pi / 180) (vec3 0 1 0)"

definition RotateZ :: "float \<Rightarrow> mat4" where
  "RotateZ degrees = glm_rotate (degrees * pi / 180) (vec3 0 0 1)"

definition Scale :: "vec3 \<Rightarrow> mat4" where
  "Scale scale = glm_scale scale"

fun compose :: "vec3 \<Rightarrow> vec3 \<Rightarrow> vec3 \<Rightarrow> mat4" where
  "compose scale (vec3 rx ry rz) position =
     Translate position * RotateX rx * RotateY ry * RotateZ rz * Scale scale"

text \<open>Reading a composed transform back: its position, and its scale and rotations.\<close>

fun position_of :: "mat4 \<Rightarrow> vec3 option" where
  "position_of (mat4_mult (mat4_mult (mat4_mult (mat4_mult (glm_translate p) rx) ry) rz) sc)
     = Some p"
| "position_of m = None"

fun scale_rotation_of :: "mat4 \<Rightarrow> (mat4 \<times> mat4 \<times> mat4 \<times> mat4) option" where
  "scale_rotation_of (mat4_mult (mat4_mult (mat4_mult (mat4_mult (glm_translate p) rx) ry) rz) sc)
     = Some (sc, rx, ry, rz)"
| "scale_rotation_of m = None"


text \<open>The position at which a draw is issued: that of the model matrix in its store.\<close>

definition draw_position :: "ShapeMeshes_call \<times> uniforms \<Rightarrow> vec3 option" where
  "draw_position d =
     (case snd d ''model'' of Some (Mat4Value m) \<Rightarrow> position_of m | _ \<Rightarrow> None)"

text \<open>
  Everything else a draw depends on: the shape, the scale and rotations of its model
  matrix, and all other uniforms.
\<close>

definition draw_rest ::
  "ShapeMeshes_call \<times> uniforms
     \<Rightarrow> ShapeMeshes_call \<times> (mat4 \<times> mat4 \<times> mat4 \<times> mat4) option \<times> uniforms" where
  "draw_rest d =
     (fst d,
      (case snd d ''model'' of Some (Mat4Value m) \<Rightarrow> scale_rotation_of m | _ \<Rightarrow> None),
      (snd d)(''model'' := None))"

section \<open>Camera zoom\<close>

text \<open>
  The members of \<open>Camera\<close> (an external class) that ViewManager.cpp reads and writes,
  the keys it polls, and the file-scope variables of ViewManager.cpp.
\<close>

record Camera =
  Position :: vec3
  Front :: vec3
  Up :: vec3
  Zoom :: float

datatype Camera_Movement = FORWARD | BACKWARD | LEFT | RIGHT | UP | DOWN

datatype key =
    GLFW_KEY_ESCAPE | GLFW_KEY_W | GLFW_KEY_S | GLFW_KEY_A | GLFW_KEY_D | GLFW_KEY_Q
  | GLFW_KEY_E | GLFW_KEY_UP | GLFW_KEY_DOWN | GLFW_KEY_O | GLFW_KEY_P

record ViewManager =
  g_pCamera :: "Camera option"
  gDeltaTime :: float
  bOrthographicProjection :: bool
  windowShouldClose :: bool

text \<open>The constructor of \<open>ViewManager\<close>: the default camera.\<close>

definition ViewManager_new :: ViewManager where
  "ViewManager_new =
     \<lparr>g_pCamera = Some \<lparr>Position = vec3 2.0 5.5 9.0, Front = vec3 0.0 (-0.9) (-4.0),
                         Up = vec3 0.0 1.0 0.0, Zoom = 60\<rparr>,
      gDeltaTime = 0.0, bOrthographicProjection = False, windowShouldClose = False\<rparr>"

text \<open>
  \<open>ProcessKeyboardEvents\<close>.  \<open>ProcessKeyboard\<close> is the camera's movement method
  and \<open>pressed\<close> says which keys \<open>glfwGetKey\<close> reports as \<open>GLFW_PRESS\<close>; a null
  camera (\<open>None\<close>) returns early.
\<close>

definition ProcessKeyboardEvents ::
  "(Camera_Movement \<Rightarrow> float \<Rightarrow> Camera \<Rightarrow> Camera) \<Rightarrow> (key \<Rightarrow> bool) \<Rightarrow> ViewManager
     \<Rightarrow> ViewManager" where
  "ProcessKeyboardEvents ProcessKeyboard pressed vm =
    (let vm = (if pressed GLFW_KEY_ESCAPE then vm\<lparr>windowShouldClose := True\<rparr> else vm)
     in case g_pCamera vm of
          None \<Rightarrow> vm
        | Some c \<Rightarrow>
           (let c = (if pressed GLFW_KEY_W then ProcessKeyboard FORWARD (gDeltaTime vm) c else c);
                c = (if pressed GLFW_KEY_S then ProcessKeyboard BACKWARD (gDeltaTime vm) c else c);
                c = (if pressed GLFW_KEY_A then ProcessKeyboard LEFT (gDeltaTime vm) c else c);
                c = (if pressed GLFW_KEY_D then ProcessKeyboard RIGHT (gDeltaTime vm) c else c);
                c = (if pressed GLFW_KEY_Q then ProcessKeyboard UP (gDeltaTime vm) c else c);
                c = (if pressed GLFW_KEY_E then ProcessKeyboard DOWN (gDeltaTime vm) c else c);
                c = (if pressed GLFW_KEY_UP then
                       (if Zoom c \<ge> 10 then c\<lparr>Zoom := Zoom c - 0.01\<rparr> else c)
                     else c);
                c = (if pressed GLFW_KEY_DOWN then
                       (if Zoom c \<le> 160 then c\<lparr>Zoom := Zoom c + 0.01\<rparr> else c)
                     else c);
                vm = (if pressed GLFW_KEY_O then
                        vm\<lparr>bOrthographicProjection := True,
                           g_pCamera := Some (c\<lparr>Position := vec3 0.0 2.0 10.0,
                                                Front := vec3 0.0 0.0 (-1.0),
                                                Up := vec3 0.0 5.0 0.0\<rparr>)\<rparr>
                      else vm\<lparr>g_pCamera := Some c\<rparr>)
            in if pressed GLFW_KEY_P then vm\<lparr>bOrthographicProjection := False\<rparr> else vm))"

text \<open>The keyboard state of a frame in which only one key is down.\<close>

definition only :: "key \<Rightarrow> key \<Rightarrow> bool" where
  "only k = (\<lambda>k'. k' = k)"

section \<open>Concrete scenes\<close>

text \<open>
  A scene manager around a shader manager, with no texture loaded and no material
  defined.  (The constructor itself leaves \<open>m_loadedTextures\<close> unassigned.)
\<close>

definition empty_scene :: SceneManager where
  "empty_scene =
     \<lparr>m_pShaderManager = ShaderManager, m_loadedTextures = 0,
      m_textureIDs = replicate 16 \<lparr>tag = [], ID = 0\<rparr>,
      m_objectMaterials = [], gl_generated = 0, calls = []\<rparr>"

text \<open>
  An outside world in which every image file decodes to a 512 by 512 image of three
  channels, and one in which metal.jpg cannot be read.
\<close>

definition all_files :: environment where
  "all_files =
     \<lparr>stbi_load = (\<lambda>filename. Some \<lparr>width = 512, height = 512, colorChannels = 3\<rparr>),
      gl_texture_name = (\<lambda>k. of_nat (k + 1))\<rparr>"

definition metal_missing :: environment where
  "metal_missing =
     \<lparr>stbi_load = (\<lambda>filename.
        if filename = ''../../Utilities/textures/metal.jpg'' then None
        else Some \<lparr>width = 512, height = 512, colorChannels = 3\<rparr>),
      gl_texture_name = (\<lambda>k. of_nat (k + 1))\<rparr>"

text \<open>A scene manager with all sixteen slots in use.\<close>

definition full_scene :: SceneManager where
  "full_scene = empty_scene\<lparr>m_loadedTextures := 16\<rparr>"

text \<open>Three loads, tagged a, b and c.\<close>

definition abc_textures :: "(string \<times> string) list" where
  "abc_textures = [(''a.png'', ''a''), (''b.png'', ''b''), (''c.png'', ''c'')]"

text \<open>
  The empty scene after \<open>LoadSceneTextures\<close>, with every file loading, and
  \<open>DefineObjectMaterials\<close>.
\<close>

definition textured_scene :: SceneManager where
  "textured_scene =
     (case LoadSceneTextures all_files empty_scene of
        Some s \<Rightarrow> DefineObjectMaterials s
      | None \<Rightarrow> empty_scene)"

text \<open>Some contents for a local variable that was never assigned.\<close>

definition stale_material :: OBJECT_MATERIAL where
  "stale_material =
     \<lparr>ambientStrength = 0, ambientColor = vec3 0 0 0, diffuseColor = vec3 0 0 0,
      specularColor = vec3 0 0 0, shininess = 0, tag = []\<rparr>"

declare FindTextureSlot_while.simps [simp del]
declare BindGLTextures_for.simps [simp del]
declare FindMaterial_while.simps [simp del]
declare bit_length.simps [simp del]


section \<open>Lemmas on the texture registry\<close>

lemma FindTextureSlot_while_found:
  "FindTextureSlot_while s t slot index True = Some slot"
  by (simp add: FindTextureSlot_while.simps)

lemma FindTextureSlot_while_miss:
  assumes "registry_ok s" "0 \<le> index"
    and "\<forall>j. index \<le> j \<and> j < m_loadedTextures s \<longrightarrow> TEXTURE_INFO.tag (m_textureIDs s ! nat j) \<noteq> t"
  shows "FindTextureSlot_while s t slot index False = Some slot"
  using assms
proof (induction s t slot index "False" rule: FindTextureSlot_while.induct)
  case (1 s t slot index)
  show ?case
  proof (cases "index < m_loadedTextures s")
    case True
    with 1 show ?thesis
      by (subst FindTextureSlot_while.simps) (auto simp: registry_ok_def)
  next
    case False
    then show ?thesis by (simp add: FindTextureSlot_while.simps)
  qed
qed

lemma FindTextureSlot_while_hit:
  assumes "registry_ok s" "0 \<le> index" "index \<le> k" "k < m_loadedTextures s"
    and "TEXTURE_INFO.tag (m_textureIDs s ! nat k) = t"
    and "\<forall>j. index \<le> j \<and> j < k \<longrightarrow> TEXTURE_INFO.tag (m_textureIDs s ! nat j) \<noteq> t"
  shows "FindTextureSlot_while s t slot index False = Some k"
  using assms
proof (induction s t slot index "False" rule: FindTextureSlot_while.induct)
  case (1 s t slot index)
  show ?case
  proof (cases "index = k")
    case True
    with 1 show ?thesis
      by (subst FindTextureSlot_while.simps)
         (auto simp: registry_ok_def FindTextureSlot_while_found)
  next
    case False
    with 1 show ?thesis
      by (subst FindTextureSlot_while.simps) (auto simp: registry_ok_def)
  qed
qed

lemma registered_tags_nth:
  "registry_ok s \<Longrightarrow> 0 \<le> j \<Longrightarrow> j < m_loadedTextures s \<Longrightarrow>
     registered_tags s ! nat j = TEXTURE_INFO.tag (m_textureIDs s ! nat j)"
  by (auto simp: registered_tags_def registry_ok_def)

lemma length_registered_tags:
  "registry_ok s \<Longrightarrow> length (registered_tags s) = nat (m_loadedTextures s)"
  by (auto simp: registered_tags_def registry_ok_def)

lemma FindTextureSlot_absent:
  assumes "registry_ok s" "t \<notin> set (registered_tags s)"
  shows "FindTextureSlot t s = Some (-1)"
proof -
  have "TEXTURE_INFO.tag (m_textureIDs s ! nat j) \<noteq> t" if "0 \<le> j" "j < m_loadedTextures s" for j
  proof -
    have "nat j < length (registered_tags s)"
      using that assms(1) by (simp add: length_registered_tags)
    then have "registered_tags s ! nat j \<in> set (registered_tags s)" by simp
    with assms that show ?thesis by (auto simp: registered_tags_nth)
  qed
  then show ?thesis
    unfolding FindTextureSlot_def
    using assms(1) by (intro FindTextureSlot_while_miss) auto
qed

lemma FindTextureSlot_present:
  assumes "registry_ok s" "distinct (registered_tags s)" "i < length (registered_tags s)"
  shows "FindTextureSlot (registered_tags s ! i) s = Some (int i)"
proof -
  have len: "length (registered_tags s) = nat (m_loadedTextures s)"
    using assms(1) by (rule length_registered_tags)
  have a: "TEXTURE_INFO.tag (m_textureIDs s ! nat (int i)) = registered_tags s ! i"
    using assms len registered_tags_nth [of s "int i"] by simp
  have b: "TEXTURE_INFO.tag (m_textureIDs s ! nat j) \<noteq> registered_tags s ! i"
    if "0 \<le> j" "j < int i" for j
  proof -
    have "nat j < length (registered_tags s)" "nat j \<noteq> i" using that assms(3) by auto
    then have "registered_tags s ! nat j \<noteq> registered_tags s ! i"
      using assms(2,3) by (simp add: nth_eq_iff_index_eq)
    moreover have "registered_tags s ! nat j = TEXTURE_INFO.tag (m_textureIDs s ! nat j)"
      using that assms len by (intro registered_tags_nth) auto
    ultimately show ?thesis by simp
  qed
  show ?thesis
    unfolding FindTextureSlot_def
    using assms len a b by (intro FindTextureSlot_while_hit) auto
qed

lemma CreateGLTexture_success:
  assumes "loadable env filename" "registry_ok s" "m_loadedTextures s < 16"
  shows "\<exists>s'. CreateGLTexture env filename t s = Some (True, s')
           \<and> registry_ok s'
           \<and> m_loadedTextures s' = m_loadedTextures s + 1
           \<and> registered_tags s' = registered_tags s @ [t]
           \<and> m_objectMaterials s' = m_objectMaterials s
           \<and> m_pShaderManager s' = m_pShaderManager s"
proof -
  obtain img where img: "stbi_load env filename = Some img"
    "colorChannels img = 3 \<or> colorChannels img = 4"
    using assms(1) by (auto simp: loadable_def split: option.splits)
  have n: "nat (m_loadedTextures s + 1) = Suc (nat (m_loadedTextures s))"
    using assms(2) by (simp add: registry_ok_def nat_add_distrib)
  have lt: "nat (m_loadedTextures s) < length (m_textureIDs s)"
    using assms(2,3) by (simp add: registry_ok_def)
  show ?thesis
    using img assms(2,3) lt
    by (auto simp: CreateGLTexture_def Let_def registry_ok_def registered_tags_def n
        take_Suc_conv_app_nth)
qed

lemma CreateGLTexture_failure:
  assumes "\<not> loadable env filename"
  shows "\<exists>s'. CreateGLTexture env filename t s = Some (False, s')
           \<and> m_textureIDs s' = m_textureIDs s
           \<and> m_loadedTextures s' = m_loadedTextures s
           \<and> m_objectMaterials s' = m_objectMaterials s
           \<and> m_pShaderManager s' = m_pShaderManager s"
  using assms
  by (auto simp: CreateGLTexture_def Let_def loadable_def split: option.splits)

lemma CreateGLTexture_overflow:
  assumes "loadable env filename" "16 \<le> m_loadedTextures s"
  shows "CreateGLTexture env filename t s = None"
  using assms
  by (auto simp: CreateGLTexture_def Let_def loadable_def split: option.splits)

lemma CreateGLTextures_registry:
  assumes "registry_ok s"
    and "m_loadedTextures s + int (length (loaded_tags env loads)) \<le> 16"
  shows "\<exists>s'. CreateGLTextures env loads s = Some s'
           \<and> registry_ok s'
           \<and> registered_tags s' = registered_tags s @ loaded_tags env loads
           \<and> m_loadedTextures s' = m_loadedTextures s + int (length (loaded_tags env loads))
           \<and> m_objectMaterials s' = m_objectMaterials s
           \<and> m_pShaderManager s' = m_pShaderManager s"
  using assms
proof (induction loads arbitrary: s)
  case Nil
  then show ?case by (simp add: loaded_tags_def)
next
  case (Cons p loads)
  obtain filename t where p: "p = (filename, t)" by (cases p)
  show ?case
  proof (cases "loadable env filename")
    case True
    then have lt: "loaded_tags env (p # loads) = t # loaded_tags env loads"
      by (simp add: loaded_tags_def p)
    with Cons.prems have "m_loadedTextures s < 16" by simp
    with True Cons.prems obtain s1 where s1:
      "CreateGLTexture env filename t s = Some (True, s1)" "registry_ok s1"
      "m_loadedTextures s1 = m_loadedTextures s + 1"
      "registered_tags s1 = registered_tags s @ [t]"
      "m_objectMaterials s1 = m_objectMaterials s"
      "m_pShaderManager s1 = m_pShaderManager s"
      using CreateGLTexture_success [of env filename s t] by blast
    have "m_loadedTextures s1 + int (length (loaded_tags env loads)) \<le> 16"
      using Cons.prems lt s1 by simp
    from Cons.IH [OF s1(2) this] s1 lt show ?thesis
      by (auto simp: p)
  next
    case False
    then have lt: "loaded_tags env (p # loads) = loaded_tags env loads"
      by (simp add: loaded_tags_def p)
    from False obtain s1 where s1:
      "CreateGLTexture env filename t s = Some (False, s1)"
      "m_textureIDs s1 = m_textureIDs s"
      "m_loadedTextures s1 = m_loadedTextures s"
      "m_objectMaterials s1 = m_objectMaterials s"
      "m_pShaderManager s1 = m_pShaderManager s"
      using CreateGLTexture_failure [of env filename t s] by blast
    then have ok: "registry_ok s1" and rt: "registered_tags s1 = registered_tags s"
      using Cons.prems by (simp_all add: registry_ok_def registered_tags_def)
    have "m_loadedTextures s1 + int (length (loaded_tags env loads)) \<le> 16"
      using Cons.prems lt s1 by simp
    from Cons.IH [OF ok this] s1 lt rt show ?thesis
      by (auto simp: p)
  qed
qed

subsection \<open>The log of calls\<close>

lemma emit_fields [simp]:
  "calls (emit cs s) = calls s @ cs"
  "m_pShaderManager (emit cs s) = m_pShaderManager s"
  "m_loadedTextures (emit cs s) = m_loadedTextures s"
  "m_textureIDs (emit cs s) = m_textureIDs s"
  "m_objectMaterials (emit cs s) = m_objectMaterials s"
  "gl_generated (emit cs s) = gl_generated s"
  by (simp_all add: emit_def)

lemma emit_emit [simp]: "emit b (emit a s) = emit (a @ b) s"
  by (simp add: emit_def)

lemma emit_Nil [simp]: "emit [] s = s"
  by (simp add: emit_def)

lemma new_calls_emit [simp]: "new_calls s (emit cs s) = cs"
  by (simp add: new_calls_def)

lemma registry_ok_emit [simp]: "registry_ok (emit cs s) = registry_ok s"
  by (simp add: registry_ok_def)

lemma registered_tags_emit [simp]: "registered_tags (emit cs s) = registered_tags s"
  by (simp add: registered_tags_def)

lemma setters_emit:
  "setIntValue name i s = emit [ShaderSet name (IntValue i)] s"
  "setFloatValue name x s = emit [ShaderSet name (FloatValue x)] s"
  "setVec2Value name v2 s = emit [ShaderSet name (Vec2Value v2)] s"
  "setVec3Value name v3 s = emit [ShaderSet name (Vec3Value v3)] s"
  "setVec4Value name v4 s = emit [ShaderSet name (Vec4Value v4)] s"
  "setMat4Value name m s = emit [ShaderSet name (Mat4Value m)] s"
  "setSampler2DValue name i s = emit [ShaderSet name (Sampler2DValue i)] s"
  "mesh_call c s = emit [MeshDraw c] s"
  by (simp_all add: emit_def setIntValue_def setFloatValue_def setVec2Value_def
      setVec3Value_def setVec4Value_def setMat4Value_def setSampler2DValue_def mesh_call_def)

lemma FindTextureSlot_while_emit:
  "FindTextureSlot_while (emit cs s) t slot index bFound
     = FindTextureSlot_while s t slot index bFound"
proof (induction s t slot index bFound rule: FindTextureSlot_while.induct)
  case (1 s t slot index bFound)
  note unfold = FindTextureSlot_while.simps [of "emit cs s" t slot index bFound]
    FindTextureSlot_while.simps [of s t slot index bFound]
  show ?case
  proof (cases "index < m_loadedTextures s \<and> bFound = False")
    case False
    then show ?thesis by (subst unfold(1), subst unfold(2)) auto
  next
    case True
    show ?thesis
    proof (cases "index < 0 \<or> 16 \<le> index \<or> length (m_textureIDs s) \<le> nat index")
      case oob: True
      with True show ?thesis by (subst unfold(1), subst unfold(2)) auto
    next
      case inb: False
      show ?thesis
      proof (cases "TEXTURE_INFO.tag (m_textureIDs s ! nat index) = t")
        case hit: True
        from 1(1) [OF True inb hit] True inb hit show ?thesis by (subst unfold(1), subst unfold(2)) auto
      next
        case miss: False
        from 1(2) [OF True inb miss] True inb miss show ?thesis by (subst unfold(1), subst unfold(2)) auto
      qed
    qed
  qed
qed

lemma FindTextureSlot_emit [simp]: "FindTextureSlot t (emit cs s) = FindTextureSlot t s"
  by (simp add: FindTextureSlot_def FindTextureSlot_while_emit)

lemma FindMaterial_while_emit:
  "FindMaterial_while (emit cs s) t material index bFound
     = FindMaterial_while s t material index bFound"
proof (induction s t material index bFound rule: FindMaterial_while.induct)
  case (1 s t material index bFound)
  note unfold = FindMaterial_while.simps [of "emit cs s" t material index bFound]
    FindMaterial_while.simps [of s t material index bFound]
  show ?case
  proof (cases "index < length (m_objectMaterials s) \<and> bFound = False")
    case False
    then show ?thesis by (subst unfold(1), subst unfold(2)) auto
  next
    case True
    show ?thesis
    proof (cases "OBJECT_MATERIAL.tag (m_objectMaterials s ! index) = t")
      case hit: True
      from 1(1) [OF True hit] True hit show ?thesis by (subst unfold(1), subst unfold(2)) auto
    next
      case miss: False
      from 1(2) [OF True miss] True miss show ?thesis by (subst unfold(1), subst unfold(2)) auto
    qed
  qed
qed

lemma FindMaterial_emit [simp]: "FindMaterial t material (emit cs s) = FindMaterial t material s"
  by (simp add: FindMaterial_def FindMaterial_while_emit)

lemma FindTextureSlot_while_total:
  assumes "registry_ok s" "0 \<le> index"
  shows "\<exists>r. FindTextureSlot_while s t slot index bFound = Some r"
  using assms
proof (induction s t slot index bFound rule: FindTextureSlot_while.induct)
  case (1 s t slot index bFound)
  show ?case
    by (subst FindTextureSlot_while.simps) (use 1 in \<open>auto simp: registry_ok_def\<close>)
qed

lemma FindTextureSlot_total:
  "registry_ok s \<Longrightarrow> \<exists>slot. FindTextureSlot t s = Some slot"
  by (simp add: FindTextureSlot_def FindTextureSlot_while_total)

subsection \<open>Each operation as the calls it adds\<close>

lemma SetTransformations_emit:
  "m_pShaderManager s \<noteq> NULL \<Longrightarrow>
     SetTransformations sc xd yd zd p s
       = emit [ShaderSet ''model'' (Mat4Value (compose sc (vec3 xd yd zd) p))] s"
  by (simp add: SetTransformations_def setters_emit g_ModelName_def Translate_def RotateX_def
      RotateY_def RotateZ_def Scale_def glm_radians_def)

lemma SetShaderColor_emit:
  "m_pShaderManager s \<noteq> NULL \<Longrightarrow>
     SetShaderColor r g b a s
       = emit [ShaderSet ''bUseTexture'' (IntValue 0),
               ShaderSet ''objectColor'' (Vec4Value (vec4 r g b a))] s"
  by (simp add: SetShaderColor_def setters_emit g_UseTextureName_def g_ColorValueName_def)

lemma SetTextureUVScale_emit:
  "m_pShaderManager s \<noteq> NULL \<Longrightarrow>
     SetTextureUVScale u v s = emit [ShaderSet ''UVscale'' (Vec2Value (vec2 u v))] s"
  by (simp add: SetTextureUVScale_def setters_emit)

lemma SetShaderTexture_emit:
  "m_pShaderManager s \<noteq> NULL \<Longrightarrow> FindTextureSlot t s = Some slot \<Longrightarrow>
     SetShaderTexture t s
       = Some (emit [ShaderSet ''bUseTexture'' (IntValue 1),
                     ShaderSet ''objectTexture'' (Sampler2DValue slot)] s)"
  by (simp add: SetShaderTexture_def setters_emit g_UseTextureName_def g_TextureValueName_def)

lemma SetShaderMaterial_emit:
  "m_pShaderManager s \<noteq> NULL \<Longrightarrow>
     SetShaderMaterial u t s
       = Some (emit (if m_objectMaterials s = [] then []
                     else material_calls (FindMaterial_while s t u 0 False)) s)"
  by (simp add: SetShaderMaterial_def FindMaterial_def setters_emit material_calls_def)

lemma DrawMeshTransformation_emit:
  "m_pShaderManager s \<noteq> NULL \<Longrightarrow>
     DrawMeshTransformation sc rot p f s
       = call_wrapper f (emit [ShaderSet ''model'' (Mat4Value (compose sc rot p))] s)"
  by (cases rot) (simp add: SetTransformations_emit)



lemma no_shader_manager:
  assumes "m_pShaderManager s = NULL"
  shows "SetTransformations sc xd yd zd p s = s"
    and "SetShaderColor r g b a s = s"
    and "SetShaderTexture t s = Some s"
    and "SetTextureUVScale uu vv s = s"
  using assms
  by (simp_all add: SetTransformations_def SetShaderColor_def SetShaderTexture_def
      SetTextureUVScale_def)

lemma uniforms_after_append:
  "uniforms_after u (a @ b) = uniforms_after (uniforms_after u a) b"
proof (induction a arbitrary: u)
  case Nil
  show ?case by simp
next
  case (Cons c a)
  then show ?case by (cases c) (simp_all del: fun_upd_apply)
qed

lemma registered_tags_empty: "m_loadedTextures s = 0 \<Longrightarrow> registered_tags s = []"
  by (simp add: registered_tags_def)

section \<open>Capacity of the texture registry\<close>

text \<open>
  Claim C9.  The registry has sixteen slots.  When the image loads and fewer than
  sixteen textures are loaded, \<open>CreateGLTexture\<close> returns true, writes the new
  entry (tag and generated texture name) at index \<open>m_loadedTextures\<close>, which lies
  inside the array, and raises the count by exactly one.  The code has no bounds
  check: with sixteen textures loaded, a further successful load writes outside the
  array.
\<close>

theorem CreateGLTexture_capacity:
  assumes "loadable env filename" "registry_ok s"
  shows "(m_loadedTextures s < 16 \<longrightarrow>
           (\<exists>s'. CreateGLTexture env filename t s = Some (True, s')
              \<and> m_loadedTextures s' = m_loadedTextures s + 1
              \<and> nat (m_loadedTextures s) < 16
              \<and> m_textureIDs s' = (m_textureIDs s)
                   [nat (m_loadedTextures s) :=
                      \<lparr>tag = t, ID = gl_texture_name env (gl_generated s)\<rparr>]
              \<and> length (m_textureIDs s') = 16))
       \<and> (m_loadedTextures s = 16 \<longrightarrow> CreateGLTexture env filename t s = None)"
proof -
  obtain img where img: "stbi_load env filename = Some img"
    "colorChannels img = 3 \<or> colorChannels img = 4"
    using assms(1) by (auto simp: loadable_def split: option.splits)
  show ?thesis
    using img assms(2)
    by (auto simp: CreateGLTexture_def Let_def registry_ok_def)
qed

theorem CreateGLTexture_capacity_witness:
  "loadable all_files ''a.png'' \<and> registry_ok empty_scene \<and> registry_ok full_scene
   \<and> m_loadedTextures empty_scene < 16
   \<and> (\<exists>s'. CreateGLTexture all_files ''a.png'' ''a'' empty_scene = Some (True, s')
         \<and> m_loadedTextures s' = 1)
   \<and> m_loadedTextures full_scene = 16
   \<and> CreateGLTexture all_files ''a.png'' ''a'' full_scene = None"
proof -
  have a: "loadable all_files ''a.png''"
    by (simp add: loadable_def all_files_def)
  have b: "registry_ok empty_scene" "registry_ok full_scene"
    by (simp_all add: registry_ok_def empty_scene_def full_scene_def)
  have c: "m_loadedTextures empty_scene = 0" "m_loadedTextures full_scene = 16"
    by (simp_all add: empty_scene_def full_scene_def)
  show ?thesis
    using CreateGLTexture_capacity [OF a b(1), of "''a''"]
      CreateGLTexture_capacity [OF a b(2), of "''a''"] a b c
    by auto
qed

section \<open>Slot lookup after loading\<close>

text \<open>
  Claim C5.  Starting from an empty registry, after a sequence of loads whose
  registered tags are distinct (and fit the sixteen slots), \<open>FindTextureSlot\<close> of
  the i-th registered tag returns i, counted from zero, and \<open>FindTextureSlot\<close> of
  a tag that is not registered returns -1; in both cases the lookup returns normally.
\<close>

theorem FindTextureSlot_after_loads:
  assumes "registry_ok s" "m_loadedTextures s = 0"
    and "distinct (loaded_tags env loads)" "length (loaded_tags env loads) \<le> 16"
  shows "\<exists>s'. CreateGLTextures env loads s = Some s'
           \<and> (\<forall>i < length (loaded_tags env loads).
                 FindTextureSlot (loaded_tags env loads ! i) s' = Some (int i))
           \<and> (\<forall>t. t \<notin> set (loaded_tags env loads) \<longrightarrow> FindTextureSlot t s' = Some (- 1))"
proof -
  have "m_loadedTextures s + int (length (loaded_tags env loads)) \<le> 16"
    using assms(2,4) by simp
  from CreateGLTextures_registry [OF assms(1) this]
  obtain s' where s': "CreateGLTextures env loads s = Some s'" "registry_ok s'"
    "registered_tags s' = registered_tags s @ loaded_tags env loads"
    by blast
  then have tags: "registered_tags s' = loaded_tags env loads"
    using assms(2) by (simp add: registered_tags_empty)
  have "FindTextureSlot (loaded_tags env loads ! i) s' = Some (int i)"
    if "i < length (loaded_tags env loads)" for i
    using FindTextureSlot_present [of s' i] s'(2) assms(3) that tags by simp
  moreover have "FindTextureSlot t s' = Some (- 1)" if "t \<notin> set (loaded_tags env loads)" for t
    using FindTextureSlot_absent [of s' t] s'(2) that tags by simp
  ultimately show ?thesis using s'(1) by blast
qed

theorem FindTextureSlot_after_loads_witness:
  "registry_ok empty_scene \<and> m_loadedTextures empty_scene = 0
   \<and> distinct (loaded_tags all_files abc_textures)
   \<and> length (loaded_tags all_files abc_textures) \<le> 16
   \<and> (\<exists>s'. CreateGLTextures all_files abc_textures empty_scene = Some s'
         \<and> FindTextureSlot ''b'' s' = Some 1
         \<and> FindTextureSlot ''missing'' s' = Some (- 1))"
proof -
  have tags: "loaded_tags all_files abc_textures = [''a'', ''b'', ''c'']"
    by (simp add: loaded_tags_def abc_textures_def loadable_def all_files_def)
  have ok: "registry_ok empty_scene" and zero: "m_loadedTextures empty_scene = 0"
    by (simp_all add: registry_ok_def empty_scene_def)
  have d: "distinct (loaded_tags all_files abc_textures)"
    and l: "length (loaded_tags all_files abc_textures) \<le> 16"
    by (simp_all add: tags)
  from FindTextureSlot_after_loads [OF ok zero d l]
  obtain s' where s': "CreateGLTextures all_files abc_textures empty_scene = Some s'"
    "\<forall>i < length (loaded_tags all_files abc_textures).
       FindTextureSlot (loaded_tags all_files abc_textures ! i) s' = Some (int i)"
    "\<forall>t. t \<notin> set (loaded_tags all_files abc_textures) \<longrightarrow> FindTextureSlot t s' = Some (- 1)"
    by blast
  from s'(2) [rule_format, of 1] have "FindTextureSlot ''b'' s' = Some 1"
    by (simp add: tags)
  moreover from s'(3) [rule_format, of "''missing''"]
  have "FindTextureSlot ''missing'' s' = Some (- 1)"
    by (simp add: tags)
  ultimately show ?thesis using ok zero d l s'(1) by blast
qed


section \<open>Loading the textures of the scene\<close>

lemma CreateGLTextures_Cons:
  "CreateGLTextures env ((filename, t) # rest) s
     = CreateGLTexture env filename t s \<bind> (\<lambda>(bReturn, s'). CreateGLTextures env rest s')"
  by (simp split: option.splits)

lemma BindGLTextures_for_emit:
  assumes "registry_ok s" "0 \<le> i"
  shows "\<exists>cs. BindGLTextures_for s i = Some (emit cs s)"
  using assms
proof (induction s i rule: BindGLTextures_for.induct)
  case (1 s i)
  show ?case
  proof (cases "i < m_loadedTextures s")
    case False
    then have "BindGLTextures_for s i = Some (emit [] s)"
      by (subst BindGLTextures_for.simps) simp
    then show ?thesis by blast
  next
    case True
    let ?s = "s\<lparr>calls := calls s @
        [glActiveTexture i, glBindTexture (ID (m_textureIDs s ! nat i))]\<rparr>"
    have inb: "\<not> (i < 0 \<or> 16 \<le> i \<or> length (m_textureIDs s) \<le> nat i)"
      using True 1(2,3) by (auto simp: registry_ok_def)
    have ok: "registry_ok ?s" using 1(2) by (simp add: registry_ok_def)
    from 1(1) [OF True inb ok] 1(3) obtain cs where
      cs: "BindGLTextures_for ?s (i + 1) = Some (emit cs ?s)" by auto
    have "?s = emit [glActiveTexture i, glBindTexture (ID (m_textureIDs s ! nat i))] s"
      by (simp add: emit_def)
    then have "emit cs ?s
      = emit ([glActiveTexture i, glBindTexture (ID (m_textureIDs s ! nat i))] @ cs) s"
      by (simp del: append.simps)
    moreover have "BindGLTextures_for s i = BindGLTextures_for ?s (i + 1)"
      using True inb by (subst BindGLTextures_for.simps) simp
    ultimately show ?thesis using cs by metis
  qed
qed

lemma LoadSceneTextures_as_list:
  "LoadSceneTextures env s = CreateGLTextures env scene_textures s \<bind> BindGLTextures"
  unfolding LoadSceneTextures_def scene_textures_def CreateGLTextures_Cons
  by (simp add: case_prod_unfold)

lemma LoadSceneTextures_registry:
  assumes "registry_ok s" "m_loadedTextures s = 0"
  shows "\<exists>s'. LoadSceneTextures env s = Some s'
           \<and> registry_ok s'
           \<and> registered_tags s' = loaded_tags env scene_textures
           \<and> m_loadedTextures s' = int (length (loaded_tags env scene_textures))
           \<and> m_objectMaterials s' = m_objectMaterials s
           \<and> m_pShaderManager s' = m_pShaderManager s"
proof -
  have "length (loaded_tags env scene_textures) \<le> length scene_textures"
    by (simp add: loaded_tags_def)
  then have "m_loadedTextures s + int (length (loaded_tags env scene_textures)) \<le> 16"
    using assms(2) by (simp add: scene_textures_def)
  from CreateGLTextures_registry [OF assms(1) this]
  obtain s1 where s1: "CreateGLTextures env scene_textures s = Some s1" "registry_ok s1"
    "registered_tags s1 = registered_tags s @ loaded_tags env scene_textures"
    "m_loadedTextures s1 = m_loadedTextures s + int (length (loaded_tags env scene_textures))"
    "m_objectMaterials s1 = m_objectMaterials s" "m_pShaderManager s1 = m_pShaderManager s"
    by blast
  obtain cs where cs: "BindGLTextures s1 = Some (emit cs s1)"
    using BindGLTextures_for_emit [OF s1(2), of 0] by (auto simp: BindGLTextures_def)
  have "LoadSceneTextures env s = Some (emit cs s1)"
    by (simp add: LoadSceneTextures_as_list s1(1) cs)
  then show ?thesis
    using s1 assms(2) by (simp add: registered_tags_empty)
qed

text \<open>
  Claim C7.  When a texture fails to load (the image does not decode, or it has a
  channel count other than 3 and 4), \<open>CreateGLTexture\<close> returns false and leaves the
  entries and the count of the registry as they were, so the tag is not added.
  \<open>LoadSceneTextures\<close> goes on with every remaining texture whatever the earlier
  results: from an empty registry it ends normally, and the registry then holds, in
  call order, the tag of every file of the scene that loads.
\<close>

theorem texture_load_failure:
  "(\<not> loadable env filename \<longrightarrow>
      (\<exists>s'. CreateGLTexture env filename t s = Some (False, s')
         \<and> m_textureIDs s' = m_textureIDs s
         \<and> m_loadedTextures s' = m_loadedTextures s
         \<and> registered_tags s' = registered_tags s))
   \<and> (registry_ok s \<and> m_loadedTextures s = 0 \<longrightarrow>
      (\<exists>s'. LoadSceneTextures env s = Some s'
         \<and> registered_tags s' = loaded_tags env scene_textures
         \<and> m_loadedTextures s' = int (length (loaded_tags env scene_textures))
         \<and> (\<forall>p \<in> set scene_textures. loadable env (fst p) \<longrightarrow> snd p \<in> set (registered_tags s'))))"
proof (intro conjI impI)
  assume "\<not> loadable env filename"
  from CreateGLTexture_failure [OF this, of t s]
  show "\<exists>s'. CreateGLTexture env filename t s = Some (False, s')
         \<and> m_textureIDs s' = m_textureIDs s
         \<and> m_loadedTextures s' = m_loadedTextures s
         \<and> registered_tags s' = registered_tags s"
    by (auto simp: registered_tags_def)
next
  assume "registry_ok s \<and> m_loadedTextures s = 0"
  then obtain s' where s': "LoadSceneTextures env s = Some s'"
    "registered_tags s' = loaded_tags env scene_textures"
    "m_loadedTextures s' = int (length (loaded_tags env scene_textures))"
    using LoadSceneTextures_registry [of s env] by blast
  have "snd p \<in> set (registered_tags s')" if "p \<in> set scene_textures" "loadable env (fst p)" for p
    using that unfolding s'(2) loaded_tags_def by (force simp: case_prod_unfold)
  with s' show "\<exists>s'. LoadSceneTextures env s = Some s'
         \<and> registered_tags s' = loaded_tags env scene_textures
         \<and> m_loadedTextures s' = int (length (loaded_tags env scene_textures))
         \<and> (\<forall>p \<in> set scene_textures. loadable env (fst p) \<longrightarrow> snd p \<in> set (registered_tags s'))"
    by blast
qed

theorem texture_load_failure_witness:
  "\<not> loadable metal_missing ''../../Utilities/textures/metal.jpg''
   \<and> registry_ok empty_scene \<and> m_loadedTextures empty_scene = 0
   \<and> (\<exists>s'. CreateGLTexture metal_missing ''../../Utilities/textures/metal.jpg'' ''metal''
              empty_scene = Some (False, s')
         \<and> registered_tags s' = [])
   \<and> (\<exists>s'. LoadSceneTextures metal_missing empty_scene = Some s'
         \<and> registered_tags s' =
              [''backdrop'', ''counter'', ''wood'', ''marble'', ''plastic'', ''cucumber_outer'',
               ''cucumber_inner'', ''glass10'', ''glass13'']
         \<and> m_loadedTextures s' = 9)"
proof -
  have a: "\<not> loadable metal_missing ''../../Utilities/textures/metal.jpg''"
    by (simp add: loadable_def metal_missing_def)
  have b: "registry_ok empty_scene" and c: "m_loadedTextures empty_scene = 0"
    and d: "registered_tags empty_scene = []"
    by (simp_all add: registry_ok_def empty_scene_def registered_tags_def)
  have e: "loaded_tags metal_missing scene_textures =
      [''backdrop'', ''counter'', ''wood'', ''marble'', ''plastic'', ''cucumber_outer'',
       ''cucumber_inner'', ''glass10'', ''glass13'']"
    by (simp add: loaded_tags_def scene_textures_def loadable_def metal_missing_def)
  from texture_load_failure
    [of metal_missing "''../../Utilities/textures/metal.jpg''" "''metal''" empty_scene]
  show ?thesis using a b c d e by auto
qed

lemma textured_scene_facts:
  "m_pShaderManager textured_scene \<noteq> NULL"
  "registry_ok textured_scene"
  "registered_tags textured_scene = map snd scene_textures"
  "m_objectMaterials textured_scene \<noteq> []"
proof -
  have ok: "registry_ok empty_scene" and zero: "m_loadedTextures empty_scene = 0"
    by (simp_all add: registry_ok_def empty_scene_def)
  have all: "loaded_tags all_files scene_textures = map snd scene_textures"
    by (simp add: loaded_tags_def loadable_def all_files_def scene_textures_def)
  from LoadSceneTextures_registry [OF ok zero, of all_files]
  obtain s' where s': "LoadSceneTextures all_files empty_scene = Some s'" "registry_ok s'"
    "registered_tags s' = loaded_tags all_files scene_textures"
    "m_pShaderManager s' = m_pShaderManager empty_scene"
    by blast
  have ts: "textured_scene = DefineObjectMaterials s'"
    by (simp add: textured_scene_def s'(1))
  show "m_pShaderManager textured_scene \<noteq> NULL"
    by (simp add: ts DefineObjectMaterials_def s'(4) empty_scene_def)
  show "registry_ok textured_scene"
    using s'(2) by (simp add: ts DefineObjectMaterials_def registry_ok_def)
  show "registered_tags textured_scene = map snd scene_textures"
    using s'(3) all by (simp add: ts DefineObjectMaterials_def registered_tags_def)
  show "m_objectMaterials textured_scene \<noteq> []"
    by (simp add: ts DefineObjectMaterials_def)
qed

lemma textured_scene_slots:
  "FindTextureSlot ''wood'' textured_scene = Some 2"
  "FindTextureSlot ''glass10'' textured_scene = Some 8"
  "FindTextureSlot ''glass13'' textured_scene = Some 9"
  using FindTextureSlot_present [OF textured_scene_facts(2), of 2]
    FindTextureSlot_present [OF textured_scene_facts(2), of 8]
    FindTextureSlot_present [OF textured_scene_facts(2), of 9]
  by (simp_all add: textured_scene_facts(3) scene_textures_def)

section \<open>The model matrix\<close>

text \<open>
  Claim C1.  For every scale, rotation in degrees about each axis and position,
  \<open>SetTransformations\<close> (with a shader manager present) makes exactly one call on
  the shader: it sets the uniform named model to
  Translate(position) * RotateX(x) * RotateY(y) * RotateZ(z) * Scale(scale), where each
  rotation matrix is built from the angle converted to radians; afterwards the model
  uniform holds that matrix, and nothing else of the scene manager has changed.
\<close>

theorem SetTransformations_model:
  assumes "m_pShaderManager s \<noteq> NULL"
  shows "new_calls s (SetTransformations scale xd yd zd position s)
           = [ShaderSet ''model'' (Mat4Value
                (Translate position * RotateX xd * RotateY yd * RotateZ zd * Scale scale))]
       \<and> RotateX xd = glm_rotate (glm_radians xd) (vec3 1 0 0)
       \<and> RotateY yd = glm_rotate (glm_radians yd) (vec3 0 1 0)
       \<and> RotateZ zd = glm_rotate (glm_radians zd) (vec3 0 0 1)
       \<and> glm_radians xd = xd * pi / 180
       \<and> uniforms_after u (calls (SetTransformations scale xd yd zd position s)) ''model''
           = Some (Mat4Value
                (Translate position * RotateX xd * RotateY yd * RotateZ zd * Scale scale))
       \<and> SetTransformations scale xd yd zd position s
           = s\<lparr>calls := calls (SetTransformations scale xd yd zd position s)\<rparr>"
proof -
  have "SetTransformations scale xd yd zd position s
          = s\<lparr>calls := calls (SetTransformations scale xd yd zd position s)\<rparr>"
    using assms by (simp add: SetTransformations_emit)
  moreover have "new_calls s (SetTransformations scale xd yd zd position s)
           = [ShaderSet ''model'' (Mat4Value
                (Translate position * RotateX xd * RotateY yd * RotateZ zd * Scale scale))]"
    using assms by (simp add: SetTransformations_emit)
  moreover have
    "uniforms_after u (calls (SetTransformations scale xd yd zd position s)) ''model''
           = Some (Mat4Value
                (Translate position * RotateX xd * RotateY yd * RotateZ zd * Scale scale))"
    using assms by (simp add: SetTransformations_emit uniforms_after_append)
  moreover have "RotateX xd = glm_rotate (glm_radians xd) (vec3 1 0 0)"
    "RotateY yd = glm_rotate (glm_radians yd) (vec3 0 1 0)"
    "RotateZ zd = glm_rotate (glm_radians zd) (vec3 0 0 1)"
    "glm_radians xd = xd * pi / 180"
    by (simp_all add: RotateX_def RotateY_def RotateZ_def glm_radians_def)
  ultimately show ?thesis by blast
qed

theorem SetTransformations_model_witness:
  "m_pShaderManager empty_scene \<noteq> NULL
   \<and> new_calls empty_scene
        (SetTransformations (vec3 2 3 4) 90 0 0 (vec3 1 2 3) empty_scene)
        = [ShaderSet ''model'' (Mat4Value
            (Translate (vec3 1 2 3) * RotateX 90 * RotateY 0 * RotateZ 0 * Scale (vec3 2 3 4)))]
   \<and> RotateX 90 = glm_rotate (pi / 2) (vec3 1 0 0)"
proof -
  have a: "m_pShaderManager empty_scene \<noteq> NULL"
    by (simp add: empty_scene_def)
  have "RotateX 90 = glm_rotate (pi / 2) (vec3 1 0 0)"
    by (simp add: RotateX_def)
  with SetTransformations_model [OF a, of "vec3 2 3 4" 90 0 0 "vec3 1 2 3"] a
  show ?thesis by simp
qed

section \<open>Texturing on a lookup miss\<close>

text \<open>
  Claim C10.  For every texture tag, \<open>SetShaderTexture\<close> (with a shader manager
  present) first sets the use-texture flag to true and then sets the sampler uniform
  to the result of the slot lookup; for a tag that is not registered the lookup gives
  -1, so texturing stays enabled with the sampler at -1.
\<close>

theorem SetShaderTexture_flag:
  assumes "m_pShaderManager s \<noteq> NULL" "registry_ok s"
  shows "\<exists>slot s'. FindTextureSlot t s = Some slot
           \<and> SetShaderTexture t s = Some s'
           \<and> new_calls s s' = [ShaderSet ''bUseTexture'' (IntValue 1),
                                ShaderSet ''objectTexture'' (Sampler2DValue slot)]
           \<and> uniforms_after u (calls s') ''bUseTexture'' = Some (IntValue 1)
           \<and> uniforms_after u (calls s') ''objectTexture'' = Some (Sampler2DValue slot)
           \<and> (t \<notin> set (registered_tags s) \<longrightarrow> slot = - 1)"
proof -
  obtain slot where slot: "FindTextureSlot t s = Some slot"
    using FindTextureSlot_total [OF assms(2)] by blast
  have "slot = - 1" if "t \<notin> set (registered_tags s)"
    using FindTextureSlot_absent [OF assms(2) that] slot by simp
  then show ?thesis
    using slot SetShaderTexture_emit [OF assms(1) slot]
    by (simp add: uniforms_after_append)
qed

theorem SetShaderTexture_flag_witness:
  "m_pShaderManager empty_scene \<noteq> NULL \<and> registry_ok empty_scene
   \<and> ''wood'' \<notin> set (registered_tags empty_scene)
   \<and> (\<exists>s'. SetShaderTexture ''wood'' empty_scene = Some s'
         \<and> uniforms_after Map.empty (calls s') ''bUseTexture'' = Some (IntValue 1)
         \<and> uniforms_after Map.empty (calls s') ''objectTexture'' = Some (Sampler2DValue (- 1)))"
proof -
  have a: "m_pShaderManager empty_scene \<noteq> NULL" and b: "registry_ok empty_scene"
    and c: "''wood'' \<notin> set (registered_tags empty_scene)"
    by (simp_all add: empty_scene_def registry_ok_def registered_tags_def)
  from SetShaderTexture_flag [OF a b, of "''wood''" Map.empty] c
  show ?thesis using a b by auto
qed

section \<open>Order of the attribute composition\<close>

lemma SetShaderAttributes_emit:
  assumes "m_pShaderManager s \<noteq> NULL" "texture \<noteq> ''none'' \<Longrightarrow> FindTextureSlot texture s = Some slot"
  shows "SetShaderAttributes un (vec4 r g b a) texture (vec2 uu vv) material s
           = Some (emit
               ([ShaderSet ''bUseTexture'' (IntValue 0),
                 ShaderSet ''objectColor'' (Vec4Value (vec4 r g b a))]
                @ (if texture = ''none'' then []
                   else [ShaderSet ''bUseTexture'' (IntValue 1),
                         ShaderSet ''objectTexture'' (Sampler2DValue slot)])
                @ [ShaderSet ''UVscale'' (Vec2Value (vec2 uu vv))]
                @ (if material = ''none'' \<or> m_objectMaterials s = [] then []
                   else material_calls (FindMaterial_while s material un 0 False))) s)"
  using assms
  by (simp add: SetShaderColor_emit SetShaderTexture_emit SetTextureUVScale_emit
      SetShaderMaterial_emit FindMaterial_while_emit Let_def)

text \<open>
  Claim C3.  \<open>SetShaderAttributes\<close> (with a shader manager present) issues its
  uniform writes in a fixed order: colour (texturing off, then the colour), then
  texture (texturing on, then the sampler slot; skipped for "none"), then the UV
  scale, then the material (skipped for "none").  After a full application with
  colour red, texture "none", UV scale (1,1) and material "none", a later
  \<open>SetShaderTexture\<close> for a tag leaves the colour uniform at red and switches the
  flag and the sampler to that tag's slot.
\<close>

theorem SetShaderAttributes_order:
  assumes "m_pShaderManager s \<noteq> NULL" "registry_ok s"
  shows "(\<exists>s' slot. FindTextureSlot texture s = Some slot
            \<and> SetShaderAttributes un (vec4 r g b a) texture (vec2 uu vv) material s = Some s'
            \<and> new_calls s s' =
                 [ShaderSet ''bUseTexture'' (IntValue 0),
                  ShaderSet ''objectColor'' (Vec4Value (vec4 r g b a))]
                 @ (if texture = ''none'' then []
                    else [ShaderSet ''bUseTexture'' (IntValue 1),
                          ShaderSet ''objectTexture'' (Sampler2DValue slot)])
                 @ [ShaderSet ''UVscale'' (Vec2Value (vec2 uu vv))]
                 @ (if material = ''none'' \<or> m_objectMaterials s = [] then []
                    else material_calls (FindMaterial_while s material un 0 False)))
       \<and> (\<exists>s1 s2 slot.
              SetShaderAttributes un (vec4 1 0 0 1) ''none'' (vec2 1 1) ''none'' s = Some s1
            \<and> uniforms_after u (calls s1) ''objectColor'' = Some (Vec4Value (vec4 1 0 0 1))
            \<and> uniforms_after u (calls s1) ''bUseTexture'' = Some (IntValue 0)
            \<and> FindTextureSlot tag' s = Some slot
            \<and> SetShaderTexture tag' s1 = Some s2
            \<and> uniforms_after u (calls s2) ''objectColor'' = Some (Vec4Value (vec4 1 0 0 1))
            \<and> uniforms_after u (calls s2) ''bUseTexture'' = Some (IntValue 1)
            \<and> uniforms_after u (calls s2) ''objectTexture'' = Some (Sampler2DValue slot))"
proof -
  obtain slot where slot: "FindTextureSlot texture s = Some slot"
    using FindTextureSlot_total [OF assms(2)] by blast
  obtain slot' where slot': "FindTextureSlot tag' s = Some slot'"
    using FindTextureSlot_total [OF assms(2)] by blast
  have first: "\<exists>s' slot. FindTextureSlot texture s = Some slot
            \<and> SetShaderAttributes un (vec4 r g b a) texture (vec2 uu vv) material s = Some s'
            \<and> new_calls s s' =
                 [ShaderSet ''bUseTexture'' (IntValue 0),
                  ShaderSet ''objectColor'' (Vec4Value (vec4 r g b a))]
                 @ (if texture = ''none'' then []
                    else [ShaderSet ''bUseTexture'' (IntValue 1),
                          ShaderSet ''objectTexture'' (Sampler2DValue slot)])
                 @ [ShaderSet ''UVscale'' (Vec2Value (vec2 uu vv))]
                 @ (if material = ''none'' \<or> m_objectMaterials s = [] then []
                    else material_calls (FindMaterial_while s material un 0 False))"
    using slot SetShaderAttributes_emit [OF assms(1) slot, of un r g b a uu vv material]
    by (simp del: SetShaderAttributes.simps)
  define s1 where "s1 = emit [ShaderSet ''bUseTexture'' (IntValue 0),
      ShaderSet ''objectColor'' (Vec4Value (vec4 1 0 0 1)),
      ShaderSet ''UVscale'' (Vec2Value (vec2 1 1))] s"
  have s1: "SetShaderAttributes un (vec4 1 0 0 1) ''none'' (vec2 1 1) ''none'' s = Some s1"
    using SetShaderAttributes_emit [OF assms(1), of "''none''" slot un 1 0 0 1 1 1 "''none''"]
    by (simp add: s1_def del: SetShaderAttributes.simps)
  have null1: "m_pShaderManager s1 \<noteq> NULL" and slot1: "FindTextureSlot tag' s1 = Some slot'"
    using assms(1) slot' by (simp_all add: s1_def)
  define s2 where "s2 = emit [ShaderSet ''bUseTexture'' (IntValue 1),
      ShaderSet ''objectTexture'' (Sampler2DValue slot')] s1"
  have s2: "SetShaderTexture tag' s1 = Some s2"
    using SetShaderTexture_emit [OF null1 slot1] by (simp add: s2_def)
  have "uniforms_after u (calls s1) ''objectColor'' = Some (Vec4Value (vec4 1 0 0 1))"
    "uniforms_after u (calls s1) ''bUseTexture'' = Some (IntValue 0)"
    "uniforms_after u (calls s2) ''objectColor'' = Some (Vec4Value (vec4 1 0 0 1))"
    "uniforms_after u (calls s2) ''bUseTexture'' = Some (IntValue 1)"
    "uniforms_after u (calls s2) ''objectTexture'' = Some (Sampler2DValue slot')"
    by (simp_all add: s1_def s2_def uniforms_after_append)
  with s1 s2 slot' have second: "\<exists>s1 s2 slot.
              SetShaderAttributes un (vec4 1 0 0 1) ''none'' (vec2 1 1) ''none'' s = Some s1
            \<and> uniforms_after u (calls s1) ''objectColor'' = Some (Vec4Value (vec4 1 0 0 1))
            \<and> uniforms_after u (calls s1) ''bUseTexture'' = Some (IntValue 0)
            \<and> FindTextureSlot tag' s = Some slot
            \<and> SetShaderTexture tag' s1 = Some s2
            \<and> uniforms_after u (calls s2) ''objectColor'' = Some (Vec4Value (vec4 1 0 0 1))
            \<and> uniforms_after u (calls s2) ''bUseTexture'' = Some (IntValue 1)
            \<and> uniforms_after u (calls s2) ''objectTexture'' = Some (Sampler2DValue slot)"
    by blast
  from first second show ?thesis by (rule conjI)
qed

theorem SetShaderAttributes_order_witness:
  "m_pShaderManager textured_scene \<noteq> NULL \<and> registry_ok textured_scene
   \<and> (\<exists>s1 s2.
         SetShaderAttributes stale_material (vec4 1 0 0 1) ''none'' (vec2 1 1) ''none''
           textured_scene = Some s1
       \<and> SetShaderTexture ''wood'' s1 = Some s2
       \<and> uniforms_after Map.empty (calls s2) ''objectColor'' = Some (Vec4Value (vec4 1 0 0 1))
       \<and> uniforms_after Map.empty (calls s2) ''bUseTexture'' = Some (IntValue 1)
       \<and> uniforms_after Map.empty (calls s2) ''objectTexture'' = Some (Sampler2DValue 2))"
  using SetShaderAttributes_order [OF textured_scene_facts(1,2),
      of "''none''" stale_material 1 0 0 1 1 1 "''none''" Map.empty "''wood''"]
    textured_scene_facts(1,2) textured_scene_slots(1)
  by (auto simp del: SetShaderAttributes.simps)

section \<open>Material lookup on a miss\<close>

lemma FindMaterial_while_found: "FindMaterial_while s t material index True = material"
  by (subst FindMaterial_while.simps) simp

lemma FindMaterial_while_miss:
  assumes "\<forall>j. index \<le> j \<and> j < length (m_objectMaterials s)
             \<longrightarrow> OBJECT_MATERIAL.tag (m_objectMaterials s ! j) \<noteq> t"
  shows "FindMaterial_while s t material index False = material"
  using assms
proof (induction s t material index "False" rule: FindMaterial_while.induct)
  case (1 s t material index)
  show ?case
  proof (cases "index < length (m_objectMaterials s)")
    case True
    with 1 show ?thesis
      by (subst FindMaterial_while.simps) auto
  next
    case False
    then show ?thesis by (subst FindMaterial_while.simps) simp
  qed
qed

lemma FindMaterial_while_hit:
  assumes "index \<le> k" "k < length (m_objectMaterials s)"
    and "OBJECT_MATERIAL.tag (m_objectMaterials s ! k) = t"
    and "\<forall>j. index \<le> j \<and> j < k \<longrightarrow> OBJECT_MATERIAL.tag (m_objectMaterials s ! j) \<noteq> t"
  shows "FindMaterial_while s t material index False
           = material\<lparr>ambientColor := ambientColor (m_objectMaterials s ! k),
                       ambientStrength := ambientStrength (m_objectMaterials s ! k),
                       diffuseColor := diffuseColor (m_objectMaterials s ! k),
                       specularColor := specularColor (m_objectMaterials s ! k),
                       shininess := shininess (m_objectMaterials s ! k)\<rparr>"
  using assms
proof (induction s t material index "False" rule: FindMaterial_while.induct)
  case (1 s t material index)
  show ?case
  proof (cases "index = k")
    case True
    with 1 show ?thesis
      by (subst FindMaterial_while.simps) (simp add: FindMaterial_while_found)
  next
    case False
    with 1 show ?thesis
      by (subst FindMaterial_while.simps) auto
  qed
qed

lemma SetShaderMaterial_miss:
  assumes "m_pShaderManager s \<noteq> NULL" "m_objectMaterials s \<noteq> []"
    and "t \<notin> OBJECT_MATERIAL.tag ` set (m_objectMaterials s)"
  shows "SetShaderMaterial un t s = Some (emit (material_calls un) s)"
proof -
  have "FindMaterial_while s t un 0 False = un"
    using assms(3) by (intro FindMaterial_while_miss) (auto simp: image_iff)
  then show ?thesis
    using assms(1,2) by (simp add: SetShaderMaterial_emit)
qed

lemma SetShaderMaterial_no_materials:
  "m_objectMaterials s = [] \<Longrightarrow> SetShaderMaterial un t s = Some s"
  by (simp add: SetShaderMaterial_def)

text \<open>
  Claim C4, evaluated on the six materials of the scene.  \<open>FindMaterial\<close> returns
  true whenever the registry is not empty, found or not.  So
  \<open>SetShaderMaterial\<close> for the tag "missing", which is not registered, does write
  the five material uniforms, from the local variable that \<open>FindMaterial\<close> never
  assigned: after "glass" was uploaded (shininess 75) the shader's shininess becomes
  whatever that variable held, here 0.
\<close>

theorem SetShaderMaterial_miss_overwrites:
  "\<exists>s1 s2.
      SetShaderMaterial stale_material ''glass'' (DefineObjectMaterials empty_scene) = Some s1
    \<and> uniforms_after Map.empty (calls s1) ''material.shininess'' = Some (FloatValue 75)
    \<and> ''missing'' \<notin> OBJECT_MATERIAL.tag ` set (m_objectMaterials s1)
    \<and> SetShaderMaterial stale_material ''missing'' s1 = Some s2
    \<and> new_calls s1 s2 = material_calls stale_material
    \<and> uniforms_after Map.empty (calls s2) ''material.shininess'' = Some (FloatValue 0)"
proof -
  let ?s = "DefineObjectMaterials empty_scene"
  have null: "m_pShaderManager ?s \<noteq> NULL"
    by (simp add: DefineObjectMaterials_def empty_scene_def)
  have glass: "FindMaterial_while ?s ''glass'' stale_material 0 False
      = stale_material\<lparr>ambientColor := vec3 0.4 0.4 0.4, ambientStrength := 0.15,
          diffuseColor := vec3 0.32 0.32 0.3, specularColor := vec3 0.6 0.6 0.6,
          shininess := 75\<rparr>"
    by (subst FindMaterial_while_hit [where k = 0])
       (simp_all add: DefineObjectMaterials_def empty_scene_def)
  define s1 where "s1 = emit (material_calls (FindMaterial_while ?s ''glass'' stale_material 0 False)) ?s"
  have s1: "SetShaderMaterial stale_material ''glass'' ?s = Some s1"
    using null by (simp add: SetShaderMaterial_emit s1_def DefineObjectMaterials_def)
  have shiny: "uniforms_after Map.empty (calls s1) ''material.shininess'' = Some (FloatValue 75)"
    by (simp add: s1_def glass uniforms_after_append material_calls_def)
  have null1: "m_pShaderManager s1 \<noteq> NULL" and ne1: "m_objectMaterials s1 \<noteq> []"
    and miss: "''missing'' \<notin> OBJECT_MATERIAL.tag ` set (m_objectMaterials s1)"
    using null by (simp_all add: s1_def DefineObjectMaterials_def empty_scene_def)
  have s2: "SetShaderMaterial stale_material ''missing'' s1
      = Some (emit (material_calls stale_material) s1)"
    using null1 ne1 miss by (rule SetShaderMaterial_miss)
  have "uniforms_after Map.empty (calls (emit (material_calls stale_material) s1))
      ''material.shininess'' = Some (FloatValue 0)"
    by (simp add: uniforms_after_append material_calls_def stale_material_def)
  with s1 shiny miss s2 show ?thesis
    by (intro exI [of _ s1] exI [of _ "emit (material_calls stale_material) s1"]) simp
qed

section \<open>Keyboard zoom\<close>

lemma zoom_in_frame:
  assumes "g_pCamera vm = Some c"
  shows "ProcessKeyboardEvents pk (only GLFW_KEY_UP) vm
           = vm\<lparr>g_pCamera := Some (if Zoom c \<ge> 10 then c\<lparr>Zoom := Zoom c - 0.01\<rparr> else c)\<rparr>"
  using assms by (simp add: ProcessKeyboardEvents_def only_def)

lemma zoom_out_frame:
  assumes "g_pCamera vm = Some c"
  shows "ProcessKeyboardEvents pk (only GLFW_KEY_DOWN) vm
           = vm\<lparr>g_pCamera := Some (if Zoom c \<le> 160 then c\<lparr>Zoom := Zoom c + 0.01\<rparr> else c)\<rparr>"
  using assms by (simp add: ProcessKeyboardEvents_def only_def)

lemma zoom_in_frames:
  assumes "g_pCamera vm = Some c" "10 \<le> Zoom c - 0.01 * real n"
  shows "(ProcessKeyboardEvents pk (only GLFW_KEY_UP) ^^ Suc n) vm
           = vm\<lparr>g_pCamera := Some (c\<lparr>Zoom := Zoom c - 0.01 * real (Suc n)\<rparr>)\<rparr>"
  using assms
proof (induction n)
  case 0
  then show ?case by (simp add: zoom_in_frame)
next
  case (Suc n)
  from Suc.prems(2) have "10 \<le> Zoom c - 0.01 * real n" by (simp add: field_simps)
  with Suc have "(ProcessKeyboardEvents pk (only GLFW_KEY_UP) ^^ Suc n) vm
      = vm\<lparr>g_pCamera := Some (c\<lparr>Zoom := Zoom c - 0.01 * real (Suc n)\<rparr>)\<rparr>"
    by blast
  then show ?case
    using Suc.prems(2) by (simp add: zoom_in_frame algebra_simps)
qed

lemma zoom_out_frames:
  assumes "g_pCamera vm = Some c" "Zoom c + 0.01 * real n \<le> 160"
  shows "(ProcessKeyboardEvents pk (only GLFW_KEY_DOWN) ^^ Suc n) vm
           = vm\<lparr>g_pCamera := Some (c\<lparr>Zoom := Zoom c + 0.01 * real (Suc n)\<rparr>)\<rparr>"
  using assms
proof (induction n)
  case 0
  then show ?case by (simp add: zoom_out_frame)
next
  case (Suc n)
  from Suc.prems(2) have "Zoom c + 0.01 * real n \<le> 160" by (simp add: field_simps)
  with Suc have "(ProcessKeyboardEvents pk (only GLFW_KEY_DOWN) ^^ Suc n) vm
      = vm\<lparr>g_pCamera := Some (c\<lparr>Zoom := Zoom c + 0.01 * real (Suc n)\<rparr>)\<rparr>"
    by blast
  then show ?case
    using Suc.prems(2) by (simp add: zoom_out_frame algebra_simps)
qed

text \<open>
  Claim C8, evaluated.  The zoom-in test is \<open>Zoom >= 10\<close>, so a request at exactly
  10 is carried out and the zoom becomes 9.99; the zoom-out test is \<open>Zoom <= 160\<close>,
  so a request at exactly 160 gives 160.01.  From the camera of the constructor
  (zoom 60) 5001 frames with the up key down reach 9.99 and 10001 frames with the
  down key down reach 160.01; only from there on are further requests rejected.
\<close>

theorem zoom_leaves_range:
  "map_option Zoom (g_pCamera (ProcessKeyboardEvents pk (only GLFW_KEY_UP)
      (ViewManager_new\<lparr>g_pCamera := Some \<lparr>Position = vec3 2.0 5.5 9.0,
          Front = vec3 0.0 (- 0.9) (- 4.0), Up = vec3 0.0 1.0 0.0, Zoom = 10\<rparr>\<rparr>))) = Some 9.99
   \<and> map_option Zoom (g_pCamera
        ((ProcessKeyboardEvents pk (only GLFW_KEY_UP) ^^ 5001) ViewManager_new)) = Some 9.99
   \<and> map_option Zoom (g_pCamera
        ((ProcessKeyboardEvents pk (only GLFW_KEY_UP) ^^ 5002) ViewManager_new)) = Some 9.99
   \<and> map_option Zoom (g_pCamera
        ((ProcessKeyboardEvents pk (only GLFW_KEY_DOWN) ^^ 10001) ViewManager_new)) = Some 160.01
   \<and> map_option Zoom (g_pCamera
        ((ProcessKeyboardEvents pk (only GLFW_KEY_DOWN) ^^ 10002) ViewManager_new)) = Some 160.01
   \<and> (9.99 :: real) < 10 \<and> (160 :: real) < 160.01"
proof -
  let ?c = "\<lparr>Position = vec3 2.0 5.5 9.0, Front = vec3 0.0 (- 0.9) (- 4.0),
             Up = vec3 0.0 1.0 0.0, Zoom = 60\<rparr>"
  have cam: "g_pCamera ViewManager_new = Some ?c"
    by (simp add: ViewManager_new_def)
  have up: "(ProcessKeyboardEvents pk (only GLFW_KEY_UP) ^^ Suc 5000) ViewManager_new
      = ViewManager_new\<lparr>g_pCamera := Some (?c\<lparr>Zoom := Zoom ?c - 0.01 * real (Suc 5000)\<rparr>)\<rparr>"
    by (rule zoom_in_frames [OF cam]) simp
  have down: "(ProcessKeyboardEvents pk (only GLFW_KEY_DOWN) ^^ Suc 10000) ViewManager_new
      = ViewManager_new\<lparr>g_pCamera := Some (?c\<lparr>Zoom := Zoom ?c + 0.01 * real (Suc 10000)\<rparr>)\<rparr>"
    by (rule zoom_out_frames [OF cam]) simp
  have n: "(5001 :: nat) = Suc 5000" "(5002 :: nat) = Suc (Suc 5000)"
    "(10001 :: nat) = Suc 10000" "(10002 :: nat) = Suc (Suc 10000)"
    by simp_all
  show ?thesis
    unfolding n funpow.simps(2) [of "Suc _"] o_apply up down
    by (simp add: zoom_in_frame zoom_out_frame)
qed


section \<open>The calls of the jar\<close>

lemma DrawJar_emit:
  assumes "m_pShaderManager s \<noteq> NULL"
    and "FindTextureSlot ''glass13'' s = Some a" "FindTextureSlot ''glass10'' s = Some b"
  shows "DrawJar un x y z s = Some (emit
    ([ShaderSet ''bUseTexture'' (IntValue 0),
      ShaderSet ''objectColor'' (Vec4Value (vec4 0.7 0.7 0.9 0.8)),
      ShaderSet ''bUseTexture'' (IntValue 1),
      ShaderSet ''objectTexture'' (Sampler2DValue a),
      ShaderSet ''UVscale'' (Vec2Value (vec2 1 0.35))]
     @ (if m_objectMaterials s = [] then []
        else material_calls (FindMaterial_while s ''glass'' un 0 False))
     @ [ShaderSet ''model'' (Mat4Value
          (compose (vec3 2 0.3 2) (vec3 0 0 0) (vec3 x (y + 0.15) z))),
        MeshDraw DrawSphereMesh,
        ShaderSet ''model'' (Mat4Value
          (compose (vec3 2 4.05 2) (vec3 0 0 0) (vec3 x (y + 0.15) z))),
        MeshDraw (DrawCylinderMesh []),
        ShaderSet ''UVscale'' (Vec2Value (vec2 1 0.25)),
        ShaderSet ''model'' (Mat4Value
          (compose (vec3 2.02 0.7 2.02) (vec3 0 (- 10) 0) (vec3 x (y + 4.2) z))),
        MeshDraw DrawSphereMesh,
        ShaderSet ''UVscale'' (Vec2Value (vec2 0.8 0.1)),
        ShaderSet ''model'' (Mat4Value
          (compose (vec3 1.6 0.8 1.6) (vec3 0 8 0) (vec3 x (y + 4.4) z))),
        MeshDraw (DrawCylinderMesh []),
        ShaderSet ''UVscale'' (Vec2Value (vec2 1.5 0.3)),
        ShaderSet ''model'' (Mat4Value
          (compose (vec3 1.48 1.48 0.65) (vec3 90 0 0) (vec3 x (y + 5.1) z))),
        MeshDraw DrawTorusMesh,
        ShaderSet ''bUseTexture'' (IntValue 1),
        ShaderSet ''objectTexture'' (Sampler2DValue b),
        ShaderSet ''UVscale'' (Vec2Value (vec2 2 1)),
        ShaderSet ''model'' (Mat4Value
          (compose (vec3 1.5 1.5 0.5) (vec3 90 0 0) (vec3 x (y + 5.25) z))),
        MeshDraw DrawTorusMesh,
        ShaderSet ''model'' (Mat4Value
          (compose (vec3 1.6 0.16 1.6) (vec3 0 0 0) (vec3 x (y + 5.25) z))),
        MeshDraw DrawSphereMesh,
        ShaderSet ''UVscale'' (Vec2Value (vec2 2 1)),
        ShaderSet ''model'' (Mat4Value
          (compose (vec3 0.9 0.5 0.9) (vec3 0 0 0) (vec3 x (y + 5.2) z))),
        MeshDraw (DrawCylinderMesh []),
        ShaderSet ''UVscale'' (Vec2Value (vec2 1.5 1)),
        ShaderSet ''model'' (Mat4Value
          (compose (vec3 1.1 1.1 0.5) (vec3 90 0 0) (vec3 x (y + 5.7) z))),
        MeshDraw DrawTorusMesh,
        ShaderSet ''model'' (Mat4Value
          (compose (vec3 1.1 0.2 1.1) (vec3 0 0 0) (vec3 x (y + 5.65) z))),
        MeshDraw DrawSphereMesh]) s)"
proof -
  have attrs: "SetShaderAttributes un (vec4 0.7 0.7 0.9 0.8) ''glass13'' (vec2 1.0 0.35)
      ''glass'' s = Some (emit
               ([ShaderSet ''bUseTexture'' (IntValue 0),
                 ShaderSet ''objectColor'' (Vec4Value (vec4 0.7 0.7 0.9 0.8))]
                @ (if ''glass13'' = ''none'' then []
                   else [ShaderSet ''bUseTexture'' (IntValue 1),
                         ShaderSet ''objectTexture'' (Sampler2DValue a)])
                @ [ShaderSet ''UVscale'' (Vec2Value (vec2 1.0 0.35))]
                @ (if ''glass'' = ''none'' \<or> m_objectMaterials s = [] then []
                   else material_calls (FindMaterial_while s ''glass'' un 0 False))) s)"
    by (rule SetShaderAttributes_emit [OF assms(1)]) (rule assms(2))
  show ?thesis
    unfolding DrawJar_def Let_def attrs
    using assms
    by (simp add: DrawMeshTransformation_emit SetTextureUVScale_emit
        SetShaderTexture_emit setters_emit
        del: SetShaderAttributes.simps DrawMeshTransformation.simps compose.simps)
qed

lemma draws_append: "draws u (a @ b) = draws u a @ draws (uniforms_after u a) b"
proof (induction a arbitrary: u)
  case Nil
  show ?case by simp
next
  case (Cons c a)
  then show ?case by (cases c) (simp_all del: fun_upd_apply)
qed

lemma draws_material_calls [simp]: "draws u (material_calls m) = []"
  by (simp add: material_calls_def)

lemma uniforms_after_material_calls:
  "uniforms_after u (material_calls m) =
     u(''material.ambientColor'' \<mapsto> Vec3Value (ambientColor m),
       ''material.ambientStrength'' \<mapsto> FloatValue (ambientStrength m),
       ''material.diffuseColor'' \<mapsto> Vec3Value (diffuseColor m),
       ''material.specularColor'' \<mapsto> Vec3Value (specularColor m),
       ''material.shininess'' \<mapsto> FloatValue (shininess m))"
  by (simp add: material_calls_def)

section \<open>The draw sequence of the jar\<close>

text \<open>
  Claim C2, as amended.  Given origin (6.0, 0.0, -6.2) (and a shader manager), the
  jar's first draw is a sphere with scale (2.0, 0.3, 2.0) at position
  (6.0, 0.15, -6.2); the jar makes exactly ten draws, in the order sphere, cylinder,
  sphere, cylinder, torus, torus, sphere, cylinder, torus, sphere; and the UV scale,
  (0.8, 0.1) at the neck cylinder, is (1.5, 0.3) at the torus drawn after it.
\<close>

theorem DrawJar_sequence:
  assumes "m_pShaderManager s \<noteq> NULL" "registry_ok s"
  shows "\<exists>s'. DrawJar un 6.0 0.0 (- 6.2) s = Some s'
     \<and> map fst (draws u (new_calls s s')) =
          [DrawSphereMesh, DrawCylinderMesh [], DrawSphereMesh, DrawCylinderMesh [],
           DrawTorusMesh, DrawTorusMesh, DrawSphereMesh, DrawCylinderMesh [],
           DrawTorusMesh, DrawSphereMesh]
     \<and> length (draws u (new_calls s s')) = 10
     \<and> fst (draws u (new_calls s s') ! 0) = DrawSphereMesh
     \<and> snd (draws u (new_calls s s') ! 0) ''model'' =
          Some (Mat4Value (compose (vec3 2.0 0.3 2.0) (vec3 0 0 0) (vec3 6.0 0.15 (- 6.2))))
     \<and> draw_position (draws u (new_calls s s') ! 0) = Some (vec3 6.0 0.15 (- 6.2))
     \<and> snd (draws u (new_calls s s') ! 3) ''UVscale'' = Some (Vec2Value (vec2 0.8 0.1))
     \<and> snd (draws u (new_calls s s') ! 4) ''UVscale'' = Some (Vec2Value (vec2 1.5 0.3))"
proof -
  obtain a where a: "FindTextureSlot ''glass13'' s = Some a"
    using FindTextureSlot_total [OF assms(2)] by blast
  obtain b where b: "FindTextureSlot ''glass10'' s = Some b"
    using FindTextureSlot_total [OF assms(2)] by blast
  note jar = DrawJar_emit [OF assms(1) a b, of un "6.0" "0.0" "- 6.2"]
  show ?thesis
    unfolding jar
    by (simp add: draws_append uniforms_after_material_calls draw_position_def
        Translate_def RotateX_def RotateY_def RotateZ_def Scale_def times_mat4_def)
qed

theorem DrawJar_sequence_witness:
  "m_pShaderManager textured_scene \<noteq> NULL \<and> registry_ok textured_scene
   \<and> (\<exists>s'. DrawJar stale_material 6.0 0.0 (- 6.2) textured_scene = Some s'
         \<and> length (draws Map.empty (new_calls textured_scene s')) = 10
         \<and> fst (draws Map.empty (new_calls textured_scene s') ! 0) = DrawSphereMesh
         \<and> draw_position (draws Map.empty (new_calls textured_scene s') ! 0)
              = Some (vec3 6.0 0.15 (- 6.2))
         \<and> snd (draws Map.empty (new_calls textured_scene s') ! 4) ''UVscale''
              = Some (Vec2Value (vec2 1.5 0.3)))"
  using DrawJar_sequence [OF textured_scene_facts(1,2), of stale_material Map.empty]
    textured_scene_facts(1,2)
  by auto

text \<open>
  Claim C2 as stated asks for exactly nine draws, against its own list of ten shapes:
  on the textured scene, at origin (6.0, 0.0, -6.2), the jar makes ten draws, not
  nine.
\<close>

theorem DrawJar_nine_draws_counterexample:
  "DrawJar stale_material 6.0 0.0 (- 6.2) textured_scene \<noteq> None
   \<and> length (draws Map.empty (new_calls textured_scene
        (the (DrawJar stale_material 6.0 0.0 (- 6.2) textured_scene)))) \<noteq> 9"
  unfolding DrawJar_emit [OF textured_scene_facts(1) textured_scene_slots(3)
      textured_scene_slots(2)]
  by (simp add: draws_append)

section \<open>Translating the origin of the jar\<close>





section \<open>Binary32 rounding\<close>

text \<open>
  \<open>exponent\<close> is the exponent of its argument, and \<open>binary32\<close> rounds to a number
  with a significand of 24 binary digits that is at most half a unit in the last place
  away; the numbers with such a significand are the ones it leaves unchanged.
\<close>

lemma bit_length_bounds:
  "0 < n \<Longrightarrow> 1 \<le> bit_length n \<and> 2 ^ nat (bit_length n - 1) \<le> n \<and> n < 2 ^ nat (bit_length n)"
proof (induction n rule: bit_length.induct)
  case (1 n)
  show ?case
  proof (cases "n = 1")
    case True
    then show ?thesis by (simp add: bit_length.simps)
  next
    case False
    with 1(2) have pos: "0 < n div 2" by simp
    from 1(1) pos 1(2) have IH: "1 \<le> bit_length (n div 2)"
      "2 ^ nat (bit_length (n div 2) - 1) \<le> n div 2" "n div 2 < 2 ^ nat (bit_length (n div 2))"
      by simp_all
    have b: "bit_length n = 1 + bit_length (n div 2)"
      using 1(2) by (subst bit_length.simps) simp
    have e1: "nat (1 + bit_length (n div 2) - 1) = Suc (nat (bit_length (n div 2) - 1))"
      using IH(1) by simp
    have e2: "nat (1 + bit_length (n div 2)) = Suc (nat (bit_length (n div 2)))"
      using IH(1) by simp
    define p where "p = (2::int) ^ nat (bit_length (n div 2) - 1)"
    define P where "P = (2::int) ^ nat (bit_length (n div 2))"
    from IH have "p \<le> n div 2" "n div 2 < P"
      by (simp_all add: p_def P_def)
    then have "2 * p \<le> n \<and> n < 2 * P"
      by presburger
    then show ?thesis
      unfolding b e1 e2 p_def P_def using IH(1) by simp
  qed
qed


lemma exponent_bounds:
  assumes "x \<noteq> 0"
  shows "2 powi exponent x \<le> \<bar>x\<bar> \<and> \<bar>x\<bar> < 2 powi (exponent x + 1)"
proof (cases "1 \<le> \<bar>x\<bar>")
  case True
  define n where "n = \<lfloor>\<bar>x\<bar>\<rfloor>"
  have n: "0 < n" "real_of_int n \<le> \<bar>x\<bar>" "\<bar>x\<bar> < real_of_int (n + 1)"
    using True by (simp_all add: n_def)
  note b = bit_length_bounds [OF n(1)]
  have e: "exponent x = bit_length n - 1"
    using True by (simp add: exponent_def n_def)
  have 1: "(2::real) powi (bit_length n - 1) = real_of_int (2 ^ nat (bit_length n - 1))"
    using b by (simp add: power_int_def)
  have 2: "(2::real) powi (bit_length n - 1 + 1) = real_of_int (2 ^ nat (bit_length n))"
    using b by (simp add: power_int_def)
  have "real_of_int (2 ^ nat (bit_length n - 1)) \<le> real_of_int n"
    using b by (simp only: of_int_le_iff)
  moreover have "real_of_int (n + 1) \<le> real_of_int (2 ^ nat (bit_length n))"
    using b by (simp only: of_int_le_iff) simp
  ultimately show ?thesis
    unfolding e 1 2 using n by linarith
next
  case False
  define t where "t = 1 / \<bar>x\<bar>"
  define n where "n = \<lfloor>t\<rfloor>"
  have x: "0 < \<bar>x\<bar>" "\<bar>x\<bar> < 1" using assms False by simp_all
  then have t: "1 < t" by (simp add: t_def)
  have n: "0 < n" "real_of_int n \<le> t" "t < real_of_int (n + 1)"
    using t by (simp_all add: n_def)
  note b = bit_length_bounds [OF n(1)]
  define j where "j = bit_length n - 1"
  have j: "0 \<le> j" "bit_length n = j + 1" using b by (simp_all add: j_def)
  have "real_of_int (2 ^ nat j) \<le> real_of_int n"
    using b unfolding j_def by (simp only: of_int_le_iff)
  with n(2) have "real_of_int (2 ^ nat j) \<le> t" by linarith
  then have lo: "2 ^ nat j \<le> t" by simp
  have "real_of_int (n + 1) \<le> real_of_int (2 ^ nat (bit_length n))"
    using b by (simp only: of_int_le_iff) simp
  with n(3) have "t < real_of_int (2 ^ nat (bit_length n))" by linarith
  then have hi: "t < 2 ^ nat (j + 1)" by (simp add: j(2))
  have xlo: "1 / 2 ^ nat (j + 1) < \<bar>x\<bar>"
    using hi x unfolding t_def by (simp add: field_simps)
  have xhi: "\<bar>x\<bar> \<le> 1 / 2 ^ nat j"
    using lo x unfolding t_def by (simp add: field_simps)
  have p1: "(2::real) powi (- j) = 1 / 2 ^ nat j"
    using j by (simp add: power_int_def field_simps)
  have p2: "(2::real) powi (- j - 1) = 1 / 2 ^ nat (j + 1)"
    using j by (simp add: power_int_def field_simps)
  have p3: "(2::real) powi (- j + 1) = 2 / 2 ^ nat j"
    by (subst power_int_add_1) (simp_all add: p1)
  then have p3': "(2::real) powi (1 - j) = 2 / 2 ^ nat j"
    by simp
  have e: "exponent x = (if \<bar>x\<bar> * 2 ^ nat j = 1 then - j else - j - 1)"
    using False by (simp add: exponent_def n_def t_def j_def Let_def)
  show ?thesis
  proof (cases "\<bar>x\<bar> * 2 ^ nat j = 1")
    case True
    then have "\<bar>x\<bar> = 1 / 2 ^ nat j" by (simp add: field_simps)
    then show ?thesis unfolding e using True by (simp add: p1 p3' divide_strict_right_mono)
  next
    case ne: False
    then have "\<bar>x\<bar> \<noteq> 1 / 2 ^ nat j" by (simp add: field_simps)
    with xhi have "\<bar>x\<bar> < 1 / 2 ^ nat j" by simp
    then show ?thesis unfolding e using ne xlo by (simp add: p1 p2)
  qed
qed




lemma round_half_even_error: "\<bar>real_of_int (round_half_even m) - m\<bar> \<le> 1 / 2"
proof -
  have "real_of_int \<lfloor>m\<rfloor> \<le> m" "m < real_of_int \<lfloor>m\<rfloor> + 1"
    by linarith+
  then show ?thesis
    by (auto simp: round_half_even_def Let_def)
qed

lemma binary32_powi:
  assumes "x \<noteq> 0"
  shows "binary32 x =
    real_of_int (round_half_even (x / 2 powi (exponent x - 23))) * 2 powi (exponent x - 23)"
proof -
  have "(if 23 \<le> e then 2 ^ nat (e - 23) else 1 / 2 ^ nat (23 - e)) = (2::real) powi (e - 23)"
    for e :: int
    by (simp add: power_int_def field_simps)
  then show ?thesis
    using assms by (simp add: binary32_def Let_def)
qed




lemma binary32_error:
  assumes "x \<noteq> 0"
  shows "\<bar>binary32 x - x\<bar> \<le> 2 powi (exponent x - 24)"
proof -
  define q where "q = (2::real) powi (exponent x - 23)"
  define r where "r = round_half_even (x / q)"
  have q: "0 < q" by (simp add: q_def)
  have bx: "binary32 x = real_of_int r * q"
    using binary32_powi [OF assms] by (simp add: r_def q_def)
  have "\<bar>real_of_int r - x / q\<bar> \<le> 1 / 2"
    unfolding r_def by (rule round_half_even_error)
  then have "\<bar>real_of_int r - x / q\<bar> * q \<le> 1 / 2 * q"
    using q by (simp only: mult_le_cancel_right_pos)
  moreover have "\<bar>real_of_int r - x / q\<bar> * q = \<bar>real_of_int r * q - x\<bar>"
  proof -
    have "(real_of_int r - x / q) * q = real_of_int r * q - x"
      using q by (simp add: field_simps)
    then have "\<bar>real_of_int r * q - x\<bar> = \<bar>(real_of_int r - x / q) * q\<bar>"
      by (simp only:)
    also have "\<dots> = \<bar>real_of_int r - x / q\<bar> * \<bar>q\<bar>"
      by (rule abs_mult)
    also have "\<bar>q\<bar> = q"
      using q by simp
    finally show ?thesis by simp
  qed
  moreover have "1 / 2 * q = 2 powi (exponent x - 24)"
  proof -
    have "q = 2 powi (exponent x - 24 + 1)"
      unfolding q_def by (rule arg_cong [where f = "\<lambda>n. 2 powi n"]) simp
    also have "\<dots> = 2 powi (exponent x - 24) * 2" by (rule power_int_add_1) simp
    finally show ?thesis by simp
  qed
  ultimately show ?thesis by (simp add: bx)
qed

text \<open>
  Adding a delta before an offset, or after it, gives sums that differ by no more than
  the three roundings involved.
\<close>

lemma binary32_relative_error: "\<bar>binary32 x - x\<bar> \<le> \<bar>x\<bar> / 2 ^ 24"
proof (cases "x = 0")
  case True
  then show ?thesis by (simp add: binary32_def)
next
  case False
  have "(2::real) powi exponent x = 2 powi (24 + (exponent x - 24))"
    by (rule arg_cong [where f = "\<lambda>n. 2 powi n"]) simp
  also have "\<dots> = 2 powi 24 * 2 powi (exponent x - 24)"
    by (rule power_int_add) simp
  finally have "(2::real) powi (exponent x - 24) = 2 powi exponent x / 2 ^ 24"
    by simp
  also have "\<dots> \<le> \<bar>x\<bar> / 2 ^ 24"
    using exponent_bounds [OF False] by (simp add: divide_right_mono)
  finally show ?thesis
    using binary32_error [OF False] by linarith
qed

lemma fadd_translation_error:
  "\<bar>fadd (fadd y dy) c - (fadd y c + dy)\<bar>
     \<le> (\<bar>fadd y dy + c\<bar> + \<bar>y + dy\<bar> + \<bar>y + c\<bar>) / 2 ^ 24"
proof -
  have 1: "\<bar>binary32 (binary32 (y + dy) + c) - (binary32 (y + dy) + c)\<bar>
      \<le> \<bar>binary32 (y + dy) + c\<bar> / 2 ^ 24"
    by (rule binary32_relative_error)
  have 2: "\<bar>binary32 (y + dy) - (y + dy)\<bar> \<le> \<bar>y + dy\<bar> / 2 ^ 24"
    by (rule binary32_relative_error)
  have 3: "\<bar>binary32 (y + c) - (y + c)\<bar> \<le> \<bar>y + c\<bar> / 2 ^ 24"
    by (rule binary32_relative_error)
  have "\<bar>binary32 (binary32 (y + dy) + c) - (binary32 (y + c) + dy)\<bar>
      \<le> \<bar>binary32 (y + dy) + c\<bar> / 2 ^ 24 + \<bar>y + dy\<bar> / 2 ^ 24 + \<bar>y + c\<bar> / 2 ^ 24"
    using 1 2 3 by linarith
  then show ?thesis
    by (simp add: fadd_def add_divide_distrib)
qed


text \<open>The floats that the literals of the jar denote.\<close>

lemmas binary32_eval =
  binary32_def exponent_def round_half_even_def Let_def bit_length.simps fadd_def

lemma binary32_literals:
  "binary32 0.15 = 5033165 / 33554432"
  "binary32 4.2 = 4404019 / 1048576"
  "binary32 4.4 = 9227469 / 2097152"
  "binary32 5.10 = 10695475 / 2097152"
  "binary32 5.25 = 21 / 4"
  "binary32 5.2 = 5452595 / 1048576"
  "binary32 5.7 = 5976883 / 1048576"
  "binary32 5.65 = 11848909 / 2097152"
  "binary32 0.1 = 13421773 / 134217728"
  "binary32 0.2 = 13421773 / 67108864"
  "binary32 (- 6.2) = - (6501171 / 1048576)"
  by (simp_all add: binary32_eval)

section \<open>The jar in binary32 arithmetic\<close>

lemma DrawJar_binary32_emit:
  assumes "m_pShaderManager s \<noteq> NULL"
    and "FindTextureSlot ''glass13'' s = Some a" "FindTextureSlot ''glass10'' s = Some b"
  shows "DrawJar_binary32 un x y z s = Some (emit
    ([ShaderSet ''bUseTexture'' (IntValue 0),
      ShaderSet ''objectColor'' (Vec4Value (vec4 0.7 0.7 0.9 0.8)),
      ShaderSet ''bUseTexture'' (IntValue 1),
      ShaderSet ''objectTexture'' (Sampler2DValue a),
      ShaderSet ''UVscale'' (Vec2Value (vec2 1 0.35))]
     @ (if m_objectMaterials s = [] then []
        else material_calls (FindMaterial_while s ''glass'' un 0 False))
     @ [ShaderSet ''model'' (Mat4Value
          (compose (vec3 2 0.3 2) (vec3 0 0 0)
             (vec3 (fadd x (binary32 0)) (fadd y (binary32 0.15)) (fadd z (binary32 0))))),
        MeshDraw DrawSphereMesh,
        ShaderSet ''model'' (Mat4Value
          (compose (vec3 2 4.05 2) (vec3 0 0 0)
             (vec3 (fadd x (binary32 0)) (fadd y (binary32 0.15)) (fadd z (binary32 0))))),
        MeshDraw (DrawCylinderMesh []),
        ShaderSet ''UVscale'' (Vec2Value (vec2 1 0.25)),
        ShaderSet ''model'' (Mat4Value
          (compose (vec3 2.02 0.7 2.02) (vec3 0 (- 10) 0)
             (vec3 (fadd x (binary32 0)) (fadd y (binary32 4.2)) (fadd z (binary32 0))))),
        MeshDraw DrawSphereMesh,
        ShaderSet ''UVscale'' (Vec2Value (vec2 0.8 0.1)),
        ShaderSet ''model'' (Mat4Value
          (compose (vec3 1.6 0.8 1.6) (vec3 0 8 0)
             (vec3 (fadd x (binary32 0)) (fadd y (binary32 4.4)) (fadd z (binary32 0))))),
        MeshDraw (DrawCylinderMesh []),
        ShaderSet ''UVscale'' (Vec2Value (vec2 1.5 0.3)),
        ShaderSet ''model'' (Mat4Value
          (compose (vec3 1.48 1.48 0.65) (vec3 90 0 0)
             (vec3 (fadd x (binary32 0)) (fadd y (binary32 5.1)) (fadd z (binary32 0))))),
        MeshDraw DrawTorusMesh,
        ShaderSet ''bUseTexture'' (IntValue 1),
        ShaderSet ''objectTexture'' (Sampler2DValue b),
        ShaderSet ''UVscale'' (Vec2Value (vec2 2 1)),
        ShaderSet ''model'' (Mat4Value
          (compose (vec3 1.5 1.5 0.5) (vec3 90 0 0)
             (vec3 (fadd x (binary32 0)) (fadd y (binary32 5.25)) (fadd z (binary32 0))))),
        MeshDraw DrawTorusMesh,
        ShaderSet ''model'' (Mat4Value
          (compose (vec3 1.6 0.16 1.6) (vec3 0 0 0)
             (vec3 (fadd x (binary32 0)) (fadd y (binary32 5.25)) (fadd z (binary32 0))))),
        MeshDraw DrawSphereMesh,
        ShaderSet ''UVscale'' (Vec2Value (vec2 2 1)),
        ShaderSet ''model'' (Mat4Value
          (compose (vec3 0.9 0.5 0.9) (vec3 0 0 0)
             (vec3 (fadd x (binary32 0)) (fadd y (binary32 5.2)) (fadd z (binary32 0))))),
        MeshDraw (DrawCylinderMesh []),
        ShaderSet ''UVscale'' (Vec2Value (vec2 1.5 1)),
        ShaderSet ''model'' (Mat4Value
          (compose (vec3 1.1 1.1 0.5) (vec3 90 0 0)
             (vec3 (fadd x (binary32 0)) (fadd y (binary32 5.7)) (fadd z (binary32 0))))),
        MeshDraw DrawTorusMesh,
        ShaderSet ''model'' (Mat4Value
          (compose (vec3 1.1 0.2 1.1) (vec3 0 0 0)
             (vec3 (fadd x (binary32 0)) (fadd y (binary32 5.65)) (fadd z (binary32 0))))),
        MeshDraw DrawSphereMesh]) s)"
proof -
  have attrs: "SetShaderAttributes un (vec4 0.7 0.7 0.9 0.8) ''glass13'' (vec2 1.0 0.35)
      ''glass'' s = Some (emit
               ([ShaderSet ''bUseTexture'' (IntValue 0),
                 ShaderSet ''objectColor'' (Vec4Value (vec4 0.7 0.7 0.9 0.8))]
                @ (if ''glass13'' = ''none'' then []
                   else [ShaderSet ''bUseTexture'' (IntValue 1),
                         ShaderSet ''objectTexture'' (Sampler2DValue a)])
                @ [ShaderSet ''UVscale'' (Vec2Value (vec2 1.0 0.35))]
                @ (if ''glass'' = ''none'' \<or> m_objectMaterials s = [] then []
                   else material_calls (FindMaterial_while s ''glass'' un 0 False))) s)"
    by (rule SetShaderAttributes_emit [OF assms(1)]) (rule assms(2))
  show ?thesis
    unfolding DrawJar_binary32_def Let_def attrs
    using assms
    by (simp add: DrawMeshTransformation_emit SetTextureUVScale_emit
        SetShaderTexture_emit setters_emit
        del: SetShaderAttributes.simps DrawMeshTransformation.simps compose.simps)
qed



text \<open>
  \<open>DrawJar_binary32\<close> and \<open>DrawJar\<close> make the same draws but for the positions.
\<close>

lemma DrawJar_binary32_rest_DrawJar:
  assumes "m_pShaderManager s \<noteq> NULL"
    and "FindTextureSlot ''glass13'' s = Some a" "FindTextureSlot ''glass10'' s = Some b"
  shows "map draw_rest (draws u (new_calls s (the (DrawJar_binary32 un x y z s)))) =
           map draw_rest (draws u (new_calls s (the (DrawJar un x' y' z' s))))"
  unfolding DrawJar_binary32_emit [OF assms] DrawJar_emit [OF assms]
  by (simp add: draws_append uniforms_after_material_calls draw_rest_def fun_eq_iff
      Translate_def RotateX_def RotateY_def RotateZ_def Scale_def times_mat4_def)







end
